theory Spec2Isabelle
  imports Complex_Main "HOL-Library.Sublist"
begin

section \<open>JavaScript values used by the purchase workflow\<close>

text \<open>
  A JavaScript number is read as the real it denotes, or one of the three special values.
  Both zeros denote \<open>Fin 0\<close>, which is what the comparisons \<open>===\<close> and \<open>>\<close> see.
\<close>

datatype jsnum = NaN | NegInf | Fin real | PosInf

text \<open>\<open>a > b\<close>: false as soon as one operand is NaN.\<close>

fun js_gt :: "jsnum \<Rightarrow> jsnum \<Rightarrow> bool" where
  "js_gt (Fin x) (Fin y) = (y < x)"
| "js_gt PosInf (Fin y) = True"
| "js_gt PosInf NegInf = True"
| "js_gt (Fin x) NegInf = True"
| "js_gt _ _ = False"


text \<open>\<open>a === b\<close> on numbers: NaN equals nothing, itself included.\<close>

definition js_strict_eq :: "jsnum \<Rightarrow> jsnum \<Rightarrow> bool" where
  "js_strict_eq a b = (a \<noteq> NaN \<and> a = b)"

text \<open>
  Strings are ASCII. \<open>String.prototype.trim\<close> strips white space and line terminators
  from both ends; \<open>toLowerCase\<close> maps \<open>A\<close>..\<open>Z\<close> to \<open>a\<close>..\<open>z\<close>.
\<close>

definition js_whitespace :: "char \<Rightarrow> bool" where
  "js_whitespace c = (c \<in> set [CHR 0x09, CHR 0x0A, CHR 0x0B, CHR 0x0C, CHR 0x0D, CHR 0x20])"

definition js_trim :: "string \<Rightarrow> string" where
  "js_trim s = rev (dropWhile js_whitespace (rev (dropWhile js_whitespace s)))"

definition js_lower_char :: "char \<Rightarrow> char" where
  "js_lower_char c =
     (case map_of (zip ''ABCDEFGHIJKLMNOPQRSTUVWXYZ'' ''abcdefghijklmnopqrstuvwxyz'') c of
        Some l \<Rightarrow> l
      | None \<Rightarrow> c)"

definition js_toLowerCase :: "string \<Rightarrow> string" where
  "js_toLowerCase s = map js_lower_char s"

text \<open>\<open>s.replace(c, '')\<close> with a one-character string pattern: the first occurrence goes.\<close>

fun js_replace_first :: "char \<Rightarrow> string \<Rightarrow> string" where
  "js_replace_first c [] = []"
| "js_replace_first c (x # xs) = (if x = c then xs else x # js_replace_first c xs)"

text \<open>
  \<open>/~0~/g.test(s)\<close> on a regular expression object that is created where it is used
  (so \<open>lastIndex\<close> is 0): the literal pattern occurs somewhere in \<open>s\<close>.
\<close>

fun regex_test :: "string \<Rightarrow> string \<Rightarrow> bool" where
  "regex_test pat [] = (pat = [])"
| "regex_test pat (c # cs) = (prefix pat (c # cs) \<or> regex_test pat cs)"

text \<open>Truthiness of a value of type \<open>string | null | undefined\<close>.\<close>

definition truthy :: "string option \<Rightarrow> bool" where
  "truthy v = (case v of None \<Rightarrow> False | Some s \<Rightarrow> s \<noteq> [])"

text \<open>
  lodash \<open>random(lower, upper)\<close> on two integers: the bounds are swapped when out of
  order, then \<open>baseRandom\<close> returns \<open>lower + floor(Math.random() * (upper - lower + 1))\<close>.
  The draw \<open>r\<close> of \<open>Math.random()\<close> lies in \<open>[0, 1)\<close>.
\<close>

definition baseRandom :: "int \<Rightarrow> int \<Rightarrow> real \<Rightarrow> int" where
  "baseRandom lower upper r = lower + \<lfloor>r * real_of_int (upper - lower + 1)\<rfloor>"

definition random :: "int \<Rightarrow> int \<Rightarrow> real \<Rightarrow> int" where
  "random lower upper r =
     (if lower > upper then baseRandom upper lower r else baseRandom lower upper r)"

section \<open>Configuration\<close>

record ProductInformation =
  searchText :: "string option"
  sku :: string
  model :: string
  productName :: string
  productPage :: string

record CustomerInformation =
  address :: string
  addressSecondLine :: "string option"
  budget :: jsnum
  city :: string
  email :: string
  firstName :: string
  lastName :: string
  phone :: string
  state :: string
  zipcode :: string

record PaymentInformation =
  creditCardNumber :: string
  expirationMonth :: string
  expirationYear :: string
  cvv :: string
  pay_address :: string
  pay_city :: string
  pay_firstName :: string
  pay_lastName :: string
  pay_state :: string
  pay_zipcode :: string

text \<open>
  What \<open>getTasks\<close>, \<open>getCustomerInformation\<close> and \<open>getPaymentInformation\<close> return,
  and the built-in \<open>parseFloat\<close> of the JavaScript engine, in which the development is
  parametric.
\<close>

record config =
  products :: "ProductInformation list"
  customer :: CustomerInformation
  payment :: PaymentInformation
  parseFloat :: "string \<Rightarrow> jsnum"

section \<open>The world: browser, file system, notifiers\<close>

record cookie =
  cookie_name :: string
  cookie_value :: string

text \<open>
  What the environment answers to one operation of the program: the operation resolves
  (\<open>Ok\<close>), rejects with an error message, or resolves with a value. \<open>Created\<close> answers
  \<open>existsSync\<close> when another process instance has created the marker file meanwhile.
\<close>

datatype obs =
  Ok
| Fails string
| Elem bool
| Text "string option"
| CookieJar "cookie list"
| Rand real
| Created

datatype action =
  Goto string
| WaitForSelector string
| Click string
| Focus string
| TypeText string string
| Press string string
| SelectOption string string
| Check string
| Uncheck string
| Screenshot string
| WaitForFunction string
| WaitForResponse string
| Query string
| EvalTextContent string
| TextContent string
| Cookies
| Discord string
| Telegram string
| Sleep int
| ExistsSync string
| WriteFileSync string
| MathRandom
| NewContext
| NewPage
| ClosePage
| CloseContext
| Pm2Connect
| CreateBrowser
| CloseBrowser
| Pm2Delete

text \<open>
  \<open>script\<close> holds the answers the environment will give, in order (once it is used up,
  every operation resolves with no value); \<open>purchase_json\<close> says whether the marker file
  exists; \<open>trace\<close> lists, oldest first, every operation performed with its answer.
\<close>

record world =
  script :: "obs list"
  purchase_json :: bool
  trace :: "(action \<times> obs) list"

datatype js_error = Error (message: string)

text \<open>
  How a call ends: it returns, it throws, the process exits (\<open>process.exit\<close>), or the
  fuel that bounds the unbounded loops of the source ran out.
\<close>

datatype 'a result = Returns 'a | Throws js_error | Exits nat | OutOfFuel

type_synonym 'a prog = "world \<Rightarrow> 'a result \<times> world"

definition ret :: "'a \<Rightarrow> 'a prog" where
  "ret x w = (Returns x, w)"

definition throw :: "string \<Rightarrow> 'a prog" where
  "throw m w = (Throws (Error m), w)"

definition rethrow :: "js_error \<Rightarrow> 'a prog" where
  "rethrow e w = (Throws e, w)"

definition process_exit :: "nat \<Rightarrow> 'a prog" where
  "process_exit c w = (Exits c, w)"

definition out_of_fuel :: "'a prog" where
  "out_of_fuel w = (OutOfFuel, w)"

text \<open>\<open>const x = await m; k(x)\<close>\<close>

definition bnd :: "'a prog \<Rightarrow> ('a \<Rightarrow> 'b prog) \<Rightarrow> 'b prog" where
  "bnd m k w =
     (case m w of
        (Returns x, w') \<Rightarrow> k x w'
      | (Throws e, w') \<Rightarrow> (Throws e, w')
      | (Exits c, w') \<Rightarrow> (Exits c, w')
      | (OutOfFuel, w') \<Rightarrow> (OutOfFuel, w'))"

text \<open>\<open>await m; k\<close>\<close>

definition sq :: "'a prog \<Rightarrow> 'b prog \<Rightarrow> 'b prog" where
  "sq m k = bnd m (\<lambda>_. k)"

fun block :: "unit prog list \<Rightarrow> unit prog" where
  "block [] = ret ()"
| "block (m # ms) = sq m (block ms)"

text \<open>\<open>try { m } catch (error) { h(error) }\<close>\<close>

definition try_catch :: "'a prog \<Rightarrow> (js_error \<Rightarrow> 'a prog) \<Rightarrow> 'a prog" where
  "try_catch m h w = (case m w of (Throws e, w') \<Rightarrow> h e w' | (r, w') \<Rightarrow> (r, w'))"

text \<open>\<open>if (c) throw new Error(m)\<close>\<close>

definition throw_if :: "bool \<Rightarrow> string \<Rightarrow> unit prog" where
  "throw_if c m = (if c then throw m else ret ())"

text \<open>
  \<open>await Promise.all([p, q])\<close>: both promises are started before the join, so both
  operations happen; the join rejects when one of them does (with the first in array order
  when both do).
\<close>

definition promiseAll :: "unit prog \<Rightarrow> unit prog \<Rightarrow> unit prog" where
  "promiseAll p q w =
     (case p w of (r1, w1) \<Rightarrow>
        (case q w1 of (r2, w2) \<Rightarrow> ((case r1 of Returns _ \<Rightarrow> r2 | _ \<Rightarrow> r1), w2)))"

subsection \<open>Primitive operations\<close>

definition answer :: "world \<Rightarrow> obs" where
  "answer w = (case script w of [] \<Rightarrow> Ok | x # _ \<Rightarrow> x)"

text \<open>One operation on the environment: its answer is taken from the script and logged.\<close>

definition advance :: "action \<Rightarrow> world \<Rightarrow> world" where
  "advance a w = w\<lparr>script := tl (script w), trace := trace w @ [(a, answer w)]\<rparr>"

definition ask :: "action \<Rightarrow> obs prog" where
  "ask a w = (Returns (answer w), advance a w)"

text \<open>An awaited operation of the browser or of a notifier: it resolves or rejects.\<close>

definition observe :: "action \<Rightarrow> obs prog" where
  "observe a = bnd (ask a) (\<lambda>x. case x of Fails m \<Rightarrow> throw m | _ \<Rightarrow> ret x)"

definition perform :: "action \<Rightarrow> unit prog" where
  "perform a = bnd (observe a) (\<lambda>_. ret ())"

definition elem_of :: "obs \<Rightarrow> bool" where
  "elem_of x = (case x of Elem b \<Rightarrow> b | _ \<Rightarrow> False)"

definition text_of :: "obs \<Rightarrow> string option" where
  "text_of x = (case x of Text t \<Rightarrow> t | _ \<Rightarrow> None)"

definition cookies_of :: "obs \<Rightarrow> cookie list" where
  "cookies_of x = (case x of CookieJar cs \<Rightarrow> cs | _ \<Rightarrow> [])"

definition rand_of :: "obs \<Rightarrow> real" where
  "rand_of x = (case x of Rand r \<Rightarrow> (if 0 \<le> r \<and> r < 1 then r else 0) | _ \<Rightarrow> 0)"

text \<open>\<open>wait(ms)\<close>: a timer, which always resolves.\<close>

definition wait :: "int \<Rightarrow> unit prog" where
  "wait ms w = (Returns (), w\<lparr>trace := trace w @ [(Sleep ms, Ok)]\<rparr>)"

text \<open>
  \<open>existsSync('purchase.json')\<close>: true when the file is there, created by this process
  earlier or by another instance meanwhile. Nothing removes the file while the process
  runs: the source never does, and removing it by hand is how the bot is reset between runs.
\<close>

definition existsSync :: "string \<Rightarrow> bool prog" where
  "existsSync path w =
     (let ex = (purchase_json w \<or> answer w = Created)
      in (Returns ex, (advance (ExistsSync path) w)\<lparr>purchase_json := ex\<rparr>))"

text \<open>\<open>writeFileSync('purchase.json', '{}')\<close>: creates the file unless the write fails.\<close>

definition writeFileSync :: "string \<Rightarrow> unit prog" where
  "writeFileSync path w =
     (case answer w of
        Fails m \<Rightarrow> (Throws (Error m), advance (WriteFileSync path) w)
      | _ \<Rightarrow> (Returns (), (advance (WriteFileSync path) w)\<lparr>purchase_json := True\<rparr>))"

text \<open>\<open>Math.random()\<close> never throws; its draw lies in \<open>[0, 1)\<close>.\<close>

definition mathRandom :: "real prog" where
  "mathRandom = bnd (ask MathRandom) (\<lambda>x. ret (rand_of x))"

text \<open>\<open>pm2.connect(callback)\<close>: the callback receives an error or none.\<close>

definition pm2Connect :: "bool prog" where
  "pm2Connect = bnd (ask Pm2Connect) (\<lambda>x. ret (case x of Fails m \<Rightarrow> True | _ \<Rightarrow> False))"

text \<open>
  A notification: the message, with its image when there is one, is sent as one operation,
  which resolves or rejects.
\<close>

definition sendDiscordMessage :: "string \<Rightarrow> unit prog" where
  "sendDiscordMessage msg = perform (Discord msg)"

definition sendTelegramMessage :: "string \<Rightarrow> unit prog" where
  "sendTelegramMessage msg = perform (Telegram msg)"

text \<open>\<open>await page.$(selector)\<close>, then \<open>await element?.textContent()\<close>.\<close>

definition elementTextContent :: "string \<Rightarrow> string option prog" where
  "elementTextContent selector =
     bnd (observe (Query selector)) (\<lambda>element.
       if elem_of element
       then bnd (observe (TextContent selector)) (\<lambda>t. ret (text_of t))
       else ret None)"

section \<open>The page object \<open>BestBuy\<close>\<close>

text \<open>
  The methods of the class, in the order of the source. Calls of the logger are left out,
  and a screenshot is named by the fixed part of its file name, without the time stamp.
\<close>

definition bestBuyUrl :: string where
  "bestBuyUrl = ''https://bestbuy.com''"

definition botMessage :: string where
  "botMessage = ''Browser is considered a bot, aborting attempt''"

definition addToCartButton :: string where
  "addToCartButton = ''.add-to-cart-button:not([disabled])''"

definition guestButton :: string where
  "guestButton = ''.cia-guest-content .js-cia-guest-button''"

definition shippingOption :: string where
  "shippingOption = ''[name=availability-selection][id*=shipping]''"

definition "open" :: "unit prog" where
  "open = block [perform NewContext, perform NewPage]"

definition "close" :: "unit prog" where
  "close = block [perform ClosePage, perform CloseContext]"

definition goToProductPage :: "ProductInformation \<Rightarrow> unit prog" where
  "goToProductPage product =
     block [perform (Goto (bestBuyUrl @ productPage product)),
            perform (WaitForSelector ''.sku.product-data'')]"

text \<open>\<open>skuValue!.trim()\<close> throws a TypeError when the text content is null.\<close>

definition validateProductMatch :: "ProductInformation \<Rightarrow> unit prog" where
  "validateProductMatch product =
     bnd (observe (EvalTextContent ''.sku.product-data .product-data-value'')) (\<lambda>x.
       case text_of x of
         None \<Rightarrow> throw ''Cannot read properties of null (reading 'trim')''
       | Some skuValue \<Rightarrow>
           throw_if (sku product \<noteq> js_trim skuValue)
             (''Product page does not belong to product with sku '' @ sku product))"

definition isInStock :: "bool prog" where
  "isInStock = bnd (observe (Query addToCartButton)) (\<lambda>enabledButton. ret (elem_of enabledButton))"

definition hasItemBeenAddedToCart :: "bool prog" where
  "hasItemBeenAddedToCart =
     bnd (observe (WaitForResponse ''https://www.bestbuy.com/cart/api/v1/addToCart''))
       (\<lambda>completedSuccessfuly. ret True)"

text \<open>\<open>find(cookies, { name: '_abck' })?.value\<close>\<close>

definition sensorCookie :: "cookie list \<Rightarrow> string option" where
  "sensorCookie cookies = map_option cookie_value (find (\<lambda>c. cookie_name c = ''_abck'') cookies)"

text \<open>\<open>sensorCookie && !sensorValidationRegex.test(sensorCookie)\<close>\<close>

definition botDetected :: "cookie list \<Rightarrow> bool" where
  "botDetected cookies =
     (case sensorCookie cookies of
        None \<Rightarrow> False
      | Some v \<Rightarrow> truthy (Some v) \<and> \<not> regex_test ''~0~'' v)"

definition addToCart :: "ProductInformation \<Rightarrow> unit prog" where
  \<open>addToCart product =
     bnd (observe Cookies) (\<lambda>cookies.
     sq (if botDetected (cookies_of cookies)
         then sq (promiseAll (sendDiscordMessage botMessage) (sendTelegramMessage botMessage))
                (throw botMessage)
         else ret ())
     (bnd isInStock (\<lambda>inStock.
     sq (throw_if (\<not> inStock) ''Product not in stock, aborting attempt'')
     (sq (block
       [perform (Focus addToCartButton),
        perform (Screenshot ''product-in-stock''),
        promiseAll
          (sendDiscordMessage (''Product "'' @ productName product @ ''" in stock!''))
          (sendTelegramMessage (''Product "'' @ productName product @ ''" in stock!'')),
        perform (Click addToCartButton)])
     (bnd hasItemBeenAddedToCart (\<lambda>result.
     sq (throw_if (\<not> result)
           (''Product "'' @ productName product @ ''" was not able to be added to the cart''))
     (block
       [perform (Screenshot ''product-added''),
        promiseAll
          (sendDiscordMessage (''Product "'' @ productName product @ ''" added to cart!''))
          (sendTelegramMessage (''Product "'' @ productName product @ ''" added to cart!''))])))))))\<close>

definition isCartEmpty :: "bool prog" where
  "isCartEmpty =
     bnd (elementTextContent ''.fluid-large-view__title'') (\<lambda>elementTextContent.
       ret (if truthy elementTextContent
            then js_toLowerCase (js_trim (the elementTextContent)) = ''your cart is empty''
            else False))"

definition changeZipCode :: "string \<Rightarrow> unit prog" where
  "changeZipCode zipCode =
     block [perform (WaitForSelector ''.change-zipcode-link''),
            perform (Click ''.change-zipcode-link''),
            perform (Focus ''.update-zip__zip-input''),
            perform (TypeText ''.update-zip__zip-input'' zipCode),
            perform (Press ''.update-zip__zip-input'' ''Enter''),
            perform (WaitForFunction zipCode)]"

definition clickCheckoutButton :: "unit prog" where
  "clickCheckoutButton = perform (Click ''.checkout-buttons__checkout button:not(disabled)'')"

text \<open>The body of the \<open>try\<close> of the shipping loop: one selection attempt.\<close>

definition trySelectShipping :: "unit prog" where
  "trySelectShipping =
     block [perform (WaitForSelector shippingOption), perform (Click shippingOption), wait 500]"

text \<open>
  The \<open>do ... while (!shippingSelected)\<close> loop, from the value of \<open>attempt\<close> at the
  start of an iteration.
\<close>

function selectShipping :: "nat \<Rightarrow> unit prog" where
  \<open>selectShipping attempt =
     try_catch trySelectShipping (\<lambda>error.
       if attempt + 1 > 3 then throw ''Can't select shipping, aborting attempt''
       else selectShipping (attempt + 1))\<close>
  by pat_completeness auto
termination
  by (relation "measure (\<lambda>attempt. 4 - attempt)") auto

declare selectShipping.simps [simp del]

text \<open>\<open>retrying && (await this.isCartEmpty())\<close>: the page is not asked when \<open>retrying\<close> is false.\<close>

definition and_also :: "bool \<Rightarrow> bool prog \<Rightarrow> bool prog" where
  "and_also b m = (if b then m else ret False)"

fun checkout :: "nat \<Rightarrow> config \<Rightarrow> bool \<Rightarrow> unit prog" where
  "checkout 0 cfg retrying = out_of_fuel"
| "checkout (Suc fuel) cfg retrying =
     sq (perform (Goto ''https://www.bestbuy.com/cart''))
     (bnd (and_also retrying isCartEmpty) (\<lambda>empty.
     sq (throw_if empty ''Cart is empty, aborting attempt'')
     (sq (if \<not> retrying
          then sq (changeZipCode (zipcode (customer cfg))) (selectShipping 1)
          else ret ())
     (sq (perform (Screenshot ''starting-checkout''))
     (sq (promiseAll (sendDiscordMessage ''Attempting checkout'')
                     (sendTelegramMessage ''Attempting checkout''))
     (sq clickCheckoutButton
     (try_catch (perform (WaitForSelector guestButton)) (\<lambda>error.
        sq (promiseAll (sendDiscordMessage ''Checkout did not went through, trying again'')
                       (sendTelegramMessage ''Checkout did not went through, trying again''))
           (checkout fuel cfg True)))))))))"

definition continueAsGuest :: "unit prog" where
  "continueAsGuest =
     block [perform (Click guestButton),
            perform (WaitForSelector ''.checkout__container .fulfillment'')]"

definition completeShippingInformation :: "CustomerInformation \<Rightarrow> unit prog" where
  \<open>completeShippingInformation customerInformation =
     sq (perform (TypeText ''[id="consolidatedAddresses.ui_address_2.firstName"]''
                   (firstName customerInformation)))
     (sq (perform (TypeText ''[id="consolidatedAddresses.ui_address_2.lastName"]''
                   (lastName customerInformation)))
     (bnd (elementTextContent ''.address-form__cell .autocomplete__toggle'')
        (\<lambda>hideSuggestionsButtonTextContent.
     sq (if map_option (\<lambda>t. js_toLowerCase (js_trim t)) hideSuggestionsButtonTextContent
             = Some ''hide suggestions''
         then perform (Click ''.address-form__cell .autocomplete__toggle'')
         else ret ())
     (sq (perform (TypeText ''[id="consolidatedAddresses.ui_address_2.street"]''
                   (address customerInformation)))
     (sq (if truthy (addressSecondLine customerInformation)
          then block
            [perform (Click ''.address-form__showAddress2Link''),
             perform (TypeText ''[id="consolidatedAddresses.ui_address_2.street2"]''
                       (the (addressSecondLine customerInformation)))]
          else ret ())
     (block
       [perform (TypeText ''[id="consolidatedAddresses.ui_address_2.city"]''
                  (city customerInformation)),
        perform (SelectOption ''[id="consolidatedAddresses.ui_address_2.state"]''
                  (state customerInformation)),
        perform (TypeText ''[id="consolidatedAddresses.ui_address_2.zipcode"]''
                  (zipcode customerInformation)),
        perform (Uncheck ''[id="save-for-billing-address-ui_address_2"]'')]))))))\<close>

definition completeContactInformation :: "CustomerInformation \<Rightarrow> unit prog" where
  \<open>completeContactInformation customerInformation =
     block [perform (TypeText ''[id="user.emailAddress"]'' (email customerInformation)),
            perform (TypeText ''[id="user.phone"]'' (phone customerInformation)),
            perform (Check ''#text-updates'')]\<close>

definition completePaymentInformation :: "PaymentInformation \<Rightarrow> unit prog" where
  \<open>completePaymentInformation paymentInformation =
     block
       [perform (WaitForSelector ''.payment''),
        perform (TypeText ''#optimized-cc-card-number'' (creditCardNumber paymentInformation)),
        perform (SelectOption ''[name="expiration-month"]'' (expirationMonth paymentInformation)),
        perform (SelectOption ''[name="expiration-year"]'' (expirationYear paymentInformation)),
        perform (TypeText ''#credit-card-cvv'' (cvv paymentInformation)),
        perform (TypeText ''[id="payment.billingAddress.firstName"]''
                  (pay_firstName paymentInformation)),
        perform (TypeText ''[id="payment.billingAddress.lastName"]''
                  (pay_lastName paymentInformation)),
        perform (TypeText ''[id="payment.billingAddress.street"]''
                  (pay_address paymentInformation)),
        perform (TypeText ''[id="payment.billingAddress.city"]'' (pay_city paymentInformation)),
        perform (TypeText ''[id="payment.billingAddress.state"]'' (pay_state paymentInformation)),
        perform (TypeText ''[id="payment.billingAddress.zipcode"]''
                  (pay_zipcode paymentInformation))]\<close>

subsection \<open>\<open>submitGuestOrder\<close>, in the parts of its body\<close>

text \<open>From its first line to the screenshot of the completed payment page.\<close>

definition completeOrderInformation :: "config \<Rightarrow> unit prog" where
  "completeOrderInformation cfg =
     block [completeShippingInformation (customer cfg),
            completeContactInformation (customer cfg),
            perform (Screenshot ''first-information-page-completed''),
            perform (Click ''.button--continue button''),
            completePaymentInformation (payment cfg),
            perform (Screenshot ''second-information-page-completed'')]"

text \<open>
  \<open>totalContainerTextContent ? parseFloat(totalContainerTextContent.replace('$', '')) : 0\<close>
\<close>

definition parseTotal :: "config \<Rightarrow> string option \<Rightarrow> jsnum" where
  "parseTotal cfg totalContainerTextContent =
     (if truthy totalContainerTextContent
      then parseFloat cfg (js_replace_first CHR ''$'' (the totalContainerTextContent))
      else Fin 0)"

text \<open>The place-order button is looked up, then the displayed total is read and parsed.\<close>

definition readParsedTotal :: "config \<Rightarrow> jsnum prog" where
  "readParsedTotal cfg =
     bnd (observe (Query ''.button--place-order button.btn-primary'')) (\<lambda>placeOrderButton.
     bnd (elementTextContent ''.order-summary__price > span'') (\<lambda>totalContainerTextContent.
     ret (parseTotal cfg totalContainerTextContent)))"

text \<open>\<open>parsedTotal === 0 || parsedTotal > customerInformation.budget\<close>\<close>

definition totalMismatch :: "jsnum \<Rightarrow> jsnum \<Rightarrow> bool" where
  "totalMismatch parsedTotal limit = (js_strict_eq parsedTotal (Fin 0) \<or> js_gt parsedTotal limit)"

text \<open>
  From the wait that follows the click on the place-order button, which is commented out
  in the source, to the end.
\<close>

definition recordOrder :: "unit prog" where
  "recordOrder =
     sq (wait 3000)
     (bnd (existsSync ''purchase.json'') (\<lambda>marked.
     sq (if \<not> marked then writeFileSync ''purchase.json'' else ret ())
     (block
       [perform (Screenshot ''order-placed-1''),
        promiseAll (sendDiscordMessage ''Order placed!'') (sendTelegramMessage ''Order placed!''),
        wait 3000,
        perform (Screenshot ''order-placed-2''),
        wait 14000])))"

text \<open>
  From \<open>Placing order...\<close> to the end: the notifications, the check of the marker file,
  and what follows it.
\<close>

definition placeOrder :: "unit prog" where
  "placeOrder =
     sq (perform (Screenshot ''placing-order''))
     (sq (promiseAll (sendDiscordMessage ''Placing order...'')
                     (sendTelegramMessage ''Placing order...''))
     (bnd (existsSync ''purchase.json'') (\<lambda>alreadyPurchased.
     sq (if alreadyPurchased then process_exit 2 else ret ())
        recordOrder)))"

definition submitGuestOrder :: "config \<Rightarrow> unit prog" where
  "submitGuestOrder cfg =
     sq (completeOrderInformation cfg)
     (bnd (readParsedTotal cfg) (\<lambda>parsedTotal.
     sq (throw_if (totalMismatch parsedTotal (budget (customer cfg)))
           ''Total amount does not seems right, aborting'')
        placeOrder))"

subsection \<open>\<open>purchaseProduct\<close>\<close>

text \<open>The body of the \<open>try\<close> of the candidate loop, up to \<open>return true\<close>.\<close>

definition purchaseAttempt :: "nat \<Rightarrow> config \<Rightarrow> ProductInformation \<Rightarrow> bool prog" where
  "purchaseAttempt fuel cfg product =
     sq (block [goToProductPage product,
                validateProductMatch product,
                addToCart product,
                checkout fuel cfg False,
                continueAsGuest,
                submitGuestOrder cfg])
        (ret True)"

text \<open>\<open>for (const product of this.products) { try { ... } catch (error) { ... } }\<close>\<close>

fun purchaseLoop :: "nat \<Rightarrow> config \<Rightarrow> ProductInformation list \<Rightarrow> bool prog" where
  "purchaseLoop fuel cfg [] = ret False"
| "purchaseLoop fuel cfg (product # rest) =
     try_catch (purchaseAttempt fuel cfg product) (\<lambda>error.
       if message error = botMessage then rethrow error else purchaseLoop fuel cfg rest)"

definition purchaseProduct :: "nat \<Rightarrow> config \<Rightarrow> bool prog" where
  "purchaseProduct fuel cfg =
     sq (perform (Goto ''https://bestbuy.com'')) (purchaseLoop fuel cfg (products cfg))"

section \<open>The entry point\<close>

text \<open>The \<open>do ... while (!purchaseCompleted)\<close> loop of \<open>main\<close>.\<close>

fun pollLoop :: "nat \<Rightarrow> config \<Rightarrow> unit prog" where
  "pollLoop 0 cfg = out_of_fuel"
| "pollLoop (Suc fuel) cfg =
     bnd (purchaseProduct fuel cfg) (\<lambda>purchaseCompleted.
       if \<not> purchaseCompleted
       then bnd mathRandom (\<lambda>r.
              let waitTime = random 10000 30000 r
              in sq (wait waitTime) (pollLoop fuel cfg))
       else ret ())"

text \<open>What follows the loop inside the \<open>try\<close> of \<open>main\<close>.\<close>

definition shutDown :: "bool prog" where
  "shutDown =
     sq (sendDiscordMessage ''Shutting down in 1 minute'')
     (sq (wait 60000)
     (sq close (ret True)))"




section \<open>Reading traces, and example inputs\<close>

definition is_Fails :: "obs \<Rightarrow> bool" where
  "is_Fails x = (case x of Fails m \<Rightarrow> True | _ \<Rightarrow> False)"

definition is_Throws :: "'a result \<Rightarrow> bool" where
  "is_Throws r = (case r of Throws e \<Rightarrow> True | _ \<Rightarrow> False)"

definition is_Returns :: "'a result \<Rightarrow> bool" where
  "is_Returns r = (case r of Returns x \<Rightarrow> True | _ \<Rightarrow> False)"


definition failure :: "obs \<Rightarrow> js_error" where
  "failure x = (case x of Fails m \<Rightarrow> Error m | _ \<Rightarrow> Error [])"

definition is_notification :: "action \<Rightarrow> bool" where
  "is_notification a = (case a of Discord m \<Rightarrow> True | Telegram m \<Rightarrow> True | _ \<Rightarrow> False)"

definition start :: "obs list \<Rightarrow> world" where
  "start answers = \<lparr>script = answers, purchase_json = False, trace = []\<rparr>"

definition sampleProduct :: ProductInformation where
  "sampleProduct =
     \<lparr>searchText = None, sku = ''6429440'', model = ''RTX3080'',
      productName = ''RTX 3080'', productPage = ''/site/rtx-3080/6429440.p''\<rparr>"

definition sampleCustomer :: CustomerInformation where
  "sampleCustomer =
     \<lparr>address = ''1 Main St'', addressSecondLine = None, budget = Fin 800, city = ''Albany'',
      email = ''a@b.c'', firstName = ''Ada'', lastName = ''Byron'', phone = ''5550100'',
      state = ''NY'', zipcode = ''12207''\<rparr>"

definition samplePayment :: PaymentInformation where
  "samplePayment =
     \<lparr>creditCardNumber = ''4111111111111111'', expirationMonth = ''01'',
      expirationYear = ''2030'', cvv = ''123'', pay_address = ''1 Main St'',
      pay_city = ''Albany'', pay_firstName = ''Ada'', pay_lastName = ''Byron'',
      pay_state = ''NY'', pay_zipcode = ''12207''\<rparr>"

text \<open>A parser that knows three texts, which is all the examples display.\<close>

definition sampleParseFloat :: "string \<Rightarrow> jsnum" where
  "sampleParseFloat s =
     (if s = ''699.99'' then Fin (69999 / 100)
      else if s = ''-1'' then Fin (- 1)
      else if s = ''0.00'' then Fin 0
      else NaN)"

definition sampleConfig :: config where
  "sampleConfig =
     \<lparr>products = [sampleProduct], customer = sampleCustomer, payment = samplePayment,
      parseFloat = sampleParseFloat\<rparr>"

definition noProducts :: config where
  "noProducts = sampleConfig\<lparr>products := []\<rparr>"

definition flaggedCookies :: "cookie list" where
  "flaggedCookies = [\<lparr>cookie_name = ''_abck'', cookie_value = ''A1B2~-1~YAAQ''\<rparr>]"

definition cleanCookies :: "cookie list" where
  "cleanCookies = [\<lparr>cookie_name = ''_abck'', cookie_value = ''A1B2~0~YAAQ''\<rparr>]"

definition otherCookies :: "cookie list" where
  "otherCookies = [\<lparr>cookie_name = ''SID'', cookie_value = ''42''\<rparr>]"

definition emptyValueCookies :: "cookie list" where
  "emptyValueCookies = [\<lparr>cookie_name = ''_abck'', cookie_value = ''''\<rparr>]"

text \<open>
  Answers under which the order forms of \<open>sampleConfig\<close> are completed (26 operations up
  to the look-up of the place-order button) and the page then displays \<open>txt\<close> as the total.
\<close>

definition orderScript :: "string \<Rightarrow> obs list" where
  "orderScript txt = replicate 26 Ok @ [Elem True, Text (Some txt)]"


text \<open>
  Invariants of the world. \<open>keeps I m\<close>: when \<open>I\<close> holds before \<open>m\<close>, it holds after,
  however \<open>m\<close> ends. \<open>keeps_on_return I m\<close>: it holds after when \<open>m\<close> returns.
  \<open>safe I a\<close>: operation \<open>a\<close> maintains \<open>I\<close> whatever its answer; \<open>safe_ok I a\<close>: when it
  does not fail. \<open>timeless I\<close>: timers maintain \<open>I\<close>.
\<close>

definition keeps :: "(world \<Rightarrow> bool) \<Rightarrow> 'a prog \<Rightarrow> bool" where
  "keeps I m = (\<forall>w. I w \<longrightarrow> I (snd (m w)))"

definition keeps_on_return :: "(world \<Rightarrow> bool) \<Rightarrow> 'a prog \<Rightarrow> bool" where
  "keeps_on_return I m = (\<forall>w. I w \<longrightarrow> is_Returns (fst (m w)) \<longrightarrow> I (snd (m w)))"

definition safe :: "(world \<Rightarrow> bool) \<Rightarrow> action \<Rightarrow> bool" where
  "safe I a = (\<forall>w. I w \<longrightarrow> I (advance a w))"

definition safe_ok :: "(world \<Rightarrow> bool) \<Rightarrow> action \<Rightarrow> bool" where
  "safe_ok I a = (\<forall>w. I w \<longrightarrow> \<not> is_Fails (answer w) \<longrightarrow> I (advance a w))"

definition timeless :: "(world \<Rightarrow> bool) \<Rightarrow> bool" where
  "timeless I = (\<forall>w ms. I w \<longrightarrow> I (w\<lparr>trace := trace w @ [(Sleep ms, Ok)]\<rparr>))"

definition is_write :: "action \<Rightarrow> bool" where
  "is_write a = (case a of WriteFileSync p \<Rightarrow> True | _ \<Rightarrow> False)"

text \<open>\<open>exists_safe I\<close>: looking for the marker file, which may find it created, maintains \<open>I\<close>.\<close>

definition exists_safe :: "(world \<Rightarrow> bool) \<Rightarrow> bool" where
  "exists_safe I =
     (\<forall>w p. I w \<longrightarrow>
        I ((advance (ExistsSync p) w)\<lparr>purchase_json := (purchase_json w \<or> answer w = Created)\<rparr>))"

text \<open>\<open>write_safe I\<close>: writing the marker file when it does not exist maintains \<open>I\<close>.\<close>

definition write_safe :: "(world \<Rightarrow> bool) \<Rightarrow> bool" where
  "write_safe I = (\<forall>w p. I w \<longrightarrow> \<not> purchase_json w \<longrightarrow> I (snd (writeFileSync p w)))"

definition placeOrderButton :: string where
  "placeOrderButton = ''.button--place-order button.btn-primary''"


text \<open>Successful writes of the marker file so far.\<close>

definition marker_writes :: "world \<Rightarrow> nat" where
  "marker_writes w = length (filter (\<lambda>e. is_write (fst e) \<and> \<not> is_Fails (snd e)) (trace w))"



text \<open>No notification sent so far has been rejected.\<close>

definition notifications_delivered :: "world \<Rightarrow> bool" where
  "notifications_delivered w =
     list_all (\<lambda>e. \<not> (is_notification (fst e) \<and> is_Fails (snd e))) (trace w)"


text \<open>
  In the words of the specification of \<open>purchaseProduct\<close>: every candidate of the list is
  tried, in list order, and each attempt throws an error other than the bot-detection one.
  The result is the world left by the last of them.
\<close>

fun skipped :: "nat \<Rightarrow> config \<Rightarrow> ProductInformation list \<Rightarrow> world \<Rightarrow> world option" where
  "skipped fuel cfg [] w = Some w"
| "skipped fuel cfg (product # rest) w =
     (case purchaseAttempt fuel cfg product w of
        (Throws e, w') \<Rightarrow> if message e = botMessage then None else skipped fuel cfg rest w'
      | _ \<Rightarrow> None)"

definition cartUrl :: string where
  "cartUrl = ''https://www.bestbuy.com/cart''"

definition cartTitle :: string where
  "cartTitle = ''.fluid-large-view__title''"





definition outOfStock :: "obs list" where
  "outOfStock = [Ok, Ok, Text (Some ''6429440''), CookieJar otherCookies, Elem False]"

text \<open>
  A purchase of \<open>sampleProduct\<close> that goes through: the page shows the expected SKU, the
  session is clean, the product is in stock, and the displayed total is within the budget.
\<close>

definition happy :: "obs list" where
  "happy = [Ok, Ok, Text (Some '' 6429440 ''), CookieJar cleanCookies, Elem True]
           @ replicate 51 Ok @ [Elem True, Text (Some ''$699.99'')]"

definition flaggedSession :: "obs list" where
  "flaggedSession = [Ok, Ok, Text (Some ''6429440''), CookieJar flaggedCookies]"

text \<open>How many times the cart page has been opened: once per pass of \<open>checkout\<close>.\<close>

definition checkoutPasses :: "world \<Rightarrow> nat" where
  "checkoutPasses w = length (filter (\<lambda>e. fst e = Goto cartUrl) (trace w))"

text \<open>How many times the wait for the guest-checkout prompt has failed.\<close>

definition promptTimeouts :: "world \<Rightarrow> nat" where
  "promptTimeouts w =
     length (filter (\<lambda>e. fst e = WaitForSelector guestButton \<and> is_Fails (snd e)) (trace w))"

text \<open>The passes so far exceed the timeouts so far by at most \<open>d\<close>.\<close>

definition passes_within :: "int \<Rightarrow> world \<Rightarrow> bool" where
  "passes_within d w = (int (checkoutPasses w) \<le> d + int (promptTimeouts w))"

text \<open>
  The answers to a retry pass of \<open>checkout\<close> whose wait for the prompt times out: six
  operations go well, the wait fails, the two notifications are sent.
\<close>

definition retryTimeout :: "obs list" where
  "retryTimeout = replicate 6 Ok @ [Fails ''Timeout 10000ms exceeded'', Ok, Ok]"

fun timeoutsThenPrompt :: "nat \<Rightarrow> obs list" where
  "timeoutsThenPrompt 0 = []"
| "timeoutsThenPrompt (Suc k) = retryTimeout @ timeoutsThenPrompt k"

text \<open>The answers to a first pass of \<open>checkout\<close> whose wait for the prompt times out.\<close>

definition firstPassTimeout :: "obs list" where
  "firstPassTimeout = replicate 13 Ok @ [Fails ''Timeout 10000ms exceeded'', Ok, Ok]"

text \<open>The world after a retry pass, and after a first pass, that timed out under these answers.\<close>

definition retried :: "world \<Rightarrow> obs list \<Rightarrow> world" where
  "retried w rest =
     w\<lparr>script := rest,
       trace := trace w @
         [(Goto cartUrl, Ok), (Query cartTitle, Ok), (Screenshot ''starting-checkout'', Ok),
          (Discord ''Attempting checkout'', Ok), (Telegram ''Attempting checkout'', Ok),
          (Click ''.checkout-buttons__checkout button:not(disabled)'', Ok),
          (WaitForSelector guestButton, Fails ''Timeout 10000ms exceeded''),
          (Discord ''Checkout did not went through, trying again'', Ok),
          (Telegram ''Checkout did not went through, trying again'', Ok)]\<rparr>"

definition firstTried :: "config \<Rightarrow> world \<Rightarrow> obs list \<Rightarrow> world" where
  "firstTried cfg w rest =
     w\<lparr>script := rest,
       trace := trace w @
         [(Goto cartUrl, Ok),
          (WaitForSelector ''.change-zipcode-link'', Ok),
          (Click ''.change-zipcode-link'', Ok),
          (Focus ''.update-zip__zip-input'', Ok),
          (TypeText ''.update-zip__zip-input'' (zipcode (customer cfg)), Ok),
          (Press ''.update-zip__zip-input'' ''Enter'', Ok),
          (WaitForFunction (zipcode (customer cfg)), Ok),
          (WaitForSelector shippingOption, Ok),
          (Click shippingOption, Ok),
          (Sleep 500, Ok),
          (Screenshot ''starting-checkout'', Ok),
          (Discord ''Attempting checkout'', Ok), (Telegram ''Attempting checkout'', Ok),
          (Click ''.checkout-buttons__checkout button:not(disabled)'', Ok),
          (WaitForSelector guestButton, Fails ''Timeout 10000ms exceeded''),
          (Discord ''Checkout did not went through, trying again'', Ok),
          (Telegram ''Checkout did not went through, trying again'', Ok)]\<rparr>"

text \<open>A first pass that times out, then a retry pass that times out, then the prompt.\<close>

definition twoTimeouts :: "obs list" where
  "twoTimeouts = firstPassTimeout @ timeoutsThenPrompt 1"

definition inStock :: "obs list" where
  "inStock = [CookieJar cleanCookies, Elem True]"

section \<open>Running programs\<close>

lemma bnd_Returns: "m w = (Returns x, w') \<Longrightarrow> bnd m k w = k x w'"
  by (simp add: bnd_def)

lemma bnd_Throws: "m w = (Throws e, w') \<Longrightarrow> bnd m k w = (Throws e, w')"
  by (simp add: bnd_def)

lemma sq_Returns: "m w = (Returns x, w') \<Longrightarrow> sq m k w = k w'"
  by (simp add: sq_def bnd_def)

lemma sq_Throws: "m w = (Throws e, w') \<Longrightarrow> sq m k w = (Throws e, w')"
  by (simp add: sq_def bnd_def)

section \<open>The wait between two purchase attempts\<close>

lemma baseRandom_range:
  assumes "lower \<le> upper" "0 \<le> r" "r < 1"
  shows "lower \<le> baseRandom lower upper r \<and> baseRandom lower upper r \<le> upper"
proof -
  let ?n = "real_of_int (upper - lower + 1)"
  have n: "0 < ?n" using assms(1) by simp
  have lo: "0 \<le> r * ?n" using assms(2) n by simp
  have hi: "r * ?n < ?n" using assms(3) n by simp
  have "0 \<le> \<lfloor>r * ?n\<rfloor>" using lo by simp
  moreover have "\<lfloor>r * ?n\<rfloor> < upper - lower + 1"
  proof -
    have "real_of_int \<lfloor>r * ?n\<rfloor> \<le> r * ?n" by (rule of_int_floor_le)
    with hi have "real_of_int \<lfloor>r * ?n\<rfloor> < real_of_int (upper - lower + 1)" by linarith
    then show ?thesis by (simp only: of_int_less_iff)
  qed
  ultimately show ?thesis by (simp add: baseRandom_def)
qed

lemma random_range:
  assumes "0 \<le> r" "r < 1"
  shows "min lower upper \<le> random lower upper r \<and> random lower upper r \<le> max lower upper"
  using baseRandom_range[of lower upper r] baseRandom_range[of upper lower r] assms
  by (auto simp: random_def)

lemma mathRandom_run:
  "\<exists>r. 0 \<le> r \<and> r < 1 \<and>
       mathRandom w =
         (Returns r, w\<lparr>script := tl (script w), trace := trace w @ [(MathRandom, answer w)]\<rparr>)"
  by (auto simp: mathRandom_def bnd_def ask_def advance_def ret_def rand_of_def Let_def split: obs.splits)

text \<open>
  Claim C9, as the code has it. After every purchase attempt that returns false, whatever
  \<open>Math.random()\<close> draws, the poll loop sleeps for a time between 10000 ms and 30000 ms,
  both bounds included, and then goes round again: lodash \<open>random\<close> includes its upper bound.
\<close>

theorem backoff_within_closed_range:
  assumes "purchaseProduct fuel cfg w = (Returns False, w1)"
  shows "\<exists>waitTime w2. 10000 \<le> waitTime \<and> waitTime \<le> 30000
           \<and> trace w2 = trace w1 @ [(MathRandom, answer w1), (Sleep waitTime, Ok)]
           \<and> pollLoop (Suc fuel) cfg w = pollLoop fuel cfg w2"
proof -
  obtain r where r: "0 \<le> r" "r < 1"
    and m: "mathRandom w1 =
      (Returns r, w1\<lparr>script := tl (script w1), trace := trace w1 @ [(MathRandom, answer w1)]\<rparr>)"
    using mathRandom_run by blast
  let ?t = "random 10000 30000 r"
  let ?w2 = "w1\<lparr>script := tl (script w1),
                 trace := trace w1 @ [(MathRandom, answer w1), (Sleep ?t, Ok)]\<rparr>"
  have "pollLoop (Suc fuel) cfg w = pollLoop fuel cfg ?w2"
    using assms m by (simp add: bnd_def sq_def wait_def Let_def)
  moreover have "10000 \<le> ?t \<and> ?t \<le> 30000"
    using random_range[OF r, of 10000 30000] by simp
  ultimately show ?thesis by (intro exI[of _ ?t] exI[of _ ?w2]) simp
qed

lemma purchaseProduct_noProducts:
  "purchaseProduct 0 noProducts (start []) =
     (Returns False, \<lparr>script = [], purchase_json = False, trace = [(Goto ''https://bestbuy.com'', Ok)]\<rparr>)"
  by (simp add: purchaseProduct_def noProducts_def start_def sq_def bnd_def perform_def
      observe_def ask_def advance_def answer_def ret_def Let_def)

theorem backoff_within_closed_range_witness:
  "purchaseProduct 0 noProducts (start []) =
     (Returns False, \<lparr>script = [], purchase_json = False, trace = [(Goto ''https://bestbuy.com'', Ok)]\<rparr>)
   \<and> (\<exists>(waitTime::int) w2. 10000 \<le> waitTime \<and> waitTime \<le> 30000
         \<and> pollLoop (Suc 0) noProducts (start []) = pollLoop 0 noProducts w2)"
  using backoff_within_closed_range [OF purchaseProduct_noProducts] purchaseProduct_noProducts
  by blast

text \<open>
  The half-open range of claim C9 fails: the draw 0.99999 makes the poll loop sleep for
  exactly 30000 ms.
\<close>

theorem backoff_reaches_upper_bound:
  "trace (snd (pollLoop 1 noProducts (start [Ok, Rand (99999 / 100000)]))) =
     [(Goto ''https://bestbuy.com'', Ok), (MathRandom, Rand (99999 / 100000)), (Sleep 30000, Ok)]"
  by (simp add: purchaseProduct_def noProducts_def start_def sq_def bnd_def perform_def
      observe_def ask_def advance_def answer_def ret_def Let_def mathRandom_def rand_of_def wait_def
      random_def baseRandom_def out_of_fuel_def)

lemma observe_ok: "\<not> is_Fails (answer w) \<Longrightarrow> observe a w = (Returns (answer w), advance a w)"
  by (auto simp: observe_def bnd_def ask_def ret_def is_Fails_def split: obs.splits)

lemma observe_fail: "answer w = Fails m \<Longrightarrow> observe a w = (Throws (Error m), advance a w)"
  by (simp add: observe_def bnd_def ask_def throw_def)

lemma perform_run:
  "perform a w =
     ((case answer w of Fails m \<Rightarrow> Throws (Error m) | _ \<Rightarrow> Returns ()), advance a w)"
  by (cases "answer w")
    (simp_all add: perform_def bnd_def ret_def observe_ok observe_fail is_Fails_def)

lemma perform_if:
  "perform a w =
     (if is_Fails (answer w) then Throws (failure (answer w)) else Returns (), advance a w)"
  by (simp add: perform_run is_Fails_def failure_def split: obs.splits)

lemma notify_run:
  "promiseAll (sendDiscordMessage m1) (sendTelegramMessage m2) w =
     ((case answer w of
         Fails e \<Rightarrow> Throws (Error e)
       | _ \<Rightarrow> (case answer (advance (Discord m1) w) of
                Fails e \<Rightarrow> Throws (Error e)
              | _ \<Rightarrow> Returns ())),
      advance (Telegram m2) (advance (Discord m1) w))"
  by (simp add: promiseAll_def sendDiscordMessage_def sendTelegramMessage_def perform_run
      split: obs.splits)

lemma notify_if:
  "promiseAll (sendDiscordMessage m1) (sendTelegramMessage m2) w =
     (if is_Fails (answer w) then Throws (failure (answer w))
      else if is_Fails (answer (advance (Discord m1) w))
      then Throws (failure (answer (advance (Discord m1) w)))
      else Returns (),
      advance (Telegram m2) (advance (Discord m1) w))"
  by (simp add: promiseAll_def sendDiscordMessage_def sendTelegramMessage_def perform_if)

lemma try_catch_run:
  "try_catch m h w =
     (if is_Throws (fst (m w)) then h (case fst (m w) of Throws e \<Rightarrow> e) (snd (m w)) else m w)"
  by (cases "m w"; cases "fst (m w)") (auto simp: try_catch_def is_Throws_def)

section \<open>Bot detection\<close>

lemma regex_test_sublist: "regex_test pat s = sublist pat s"
  by (induction s) (simp_all add: sublist_Cons_right)

lemma sensorCookie_None:
  "sensorCookie cookies = None \<longleftrightarrow> (\<forall>c\<in>set cookies. cookie_name c \<noteq> ''_abck'')"
  by (auto simp: sensorCookie_def find_None_iff)

lemma botDetected_cookies_of: "botDetected (cookies_of x) \<Longrightarrow> \<not> is_Fails x"
  by (cases x) (simp_all add: cookies_of_def botDetected_def sensorCookie_def is_Fails_def)

lemma addToCart_flagged:
  assumes "botDetected (cookies_of (answer w))"
  shows "\<exists>e. addToCart product w =
           (Throws e,
            advance (Telegram botMessage) (advance (Discord botMessage) (advance Cookies w)))
         \<and> (\<not> is_Fails (answer (advance Cookies w))
              \<and> \<not> is_Fails (answer (advance (Discord botMessage) (advance Cookies w)))
            \<longrightarrow> e = Error botMessage)"
  using assms botDetected_cookies_of[OF assms]
  by (auto simp: addToCart_def bnd_def sq_def observe_ok notify_run throw_def is_Fails_def
      split: obs.splits)

text \<open>
  Claim C5, as the code has it. With no cookie named \<open>_abck\<close> the session is not flagged.
  With one, of value \<open>v\<close>, it is flagged exactly when \<open>v\<close> is not empty and does not
  contain \<open>~0~\<close>: an empty value counts as absent. When the cookies that \<open>addToCart\<close>
  reads are flagged, it does nothing but send the two notifications and throws: the
  bot-detection error when both sends resolve.
\<close>

theorem bot_detection_classification:
  "((\<forall>c\<in>set cookies. cookie_name c \<noteq> ''_abck'') \<longrightarrow> \<not> botDetected cookies)
   \<and> (\<forall>v. sensorCookie cookies = Some v \<longrightarrow>
          (botDetected cookies \<longleftrightarrow> v \<noteq> [] \<and> \<not> sublist ''~0~'' v))
   \<and> (botDetected (cookies_of (answer w)) \<longrightarrow>
        (\<exists>e. addToCart product w =
           (Throws e,
            advance (Telegram botMessage) (advance (Discord botMessage) (advance Cookies w)))
         \<and> (\<not> is_Fails (answer (advance Cookies w))
              \<and> \<not> is_Fails (answer (advance (Discord botMessage) (advance Cookies w)))
            \<longrightarrow> e = Error botMessage)))"
proof (intro conjI impI allI)
  assume "\<forall>c\<in>set cookies. cookie_name c \<noteq> ''_abck''"
  then have "sensorCookie cookies = None" by (simp add: sensorCookie_None)
  then show "\<not> botDetected cookies" by (simp add: botDetected_def)
next
  fix v assume "sensorCookie cookies = Some v"
  then show "botDetected cookies \<longleftrightarrow> v \<noteq> [] \<and> \<not> sublist ''~0~'' v"
    by (simp add: botDetected_def truthy_def regex_test_sublist)
next
  assume "botDetected (cookies_of (answer w))"
  then show "\<exists>e. addToCart product w =
           (Throws e,
            advance (Telegram botMessage) (advance (Discord botMessage) (advance Cookies w)))
         \<and> (\<not> is_Fails (answer (advance Cookies w))
              \<and> \<not> is_Fails (answer (advance (Discord botMessage) (advance Cookies w)))
            \<longrightarrow> e = Error botMessage)"
    by (rule addToCart_flagged)
qed

lemma sample_cookies:
  "sensorCookie otherCookies = None" "sensorCookie cleanCookies = Some ''A1B2~0~YAAQ''"
  "sensorCookie flaggedCookies = Some ''A1B2~-1~YAAQ''" "sensorCookie emptyValueCookies = Some ''''"
  by (simp_all add: sensorCookie_def otherCookies_def cleanCookies_def flaggedCookies_def
      emptyValueCookies_def)

lemma flaggedCookies_detected: "botDetected flaggedCookies"
  by (simp add: botDetected_def sample_cookies truthy_def)

theorem bot_detection_classification_witness:
  "\<not> botDetected otherCookies
   \<and> \<not> botDetected cleanCookies
   \<and> botDetected flaggedCookies
   \<and> addToCart sampleProduct (start [CookieJar flaggedCookies]) =
       (Throws (Error botMessage),
        advance (Telegram botMessage) (advance (Discord botMessage)
          (advance Cookies (start [CookieJar flaggedCookies]))))"
proof -
  have a: "\<forall>c\<in>set otherCookies. cookie_name c \<noteq> ''_abck''"
    by (simp add: otherCookies_def)
  have b: "botDetected (cookies_of (answer (start [CookieJar flaggedCookies])))"
    by (simp add: start_def answer_def cookies_of_def flaggedCookies_detected)
  have c: "\<not> is_Fails (answer (advance Cookies (start [CookieJar flaggedCookies])))"
    "\<not> is_Fails (answer (advance (Discord botMessage)
          (advance Cookies (start [CookieJar flaggedCookies]))))"
    by (simp_all add: start_def answer_def advance_def is_Fails_def)
  have s: "sublist ''~0~'' ''A1B2~0~YAAQ''"
    by (simp add: regex_test_sublist[symmetric])
  show ?thesis
    using bot_detection_classification [of otherCookies "start [CookieJar flaggedCookies]" sampleProduct]
      bot_detection_classification [of cleanCookies "start []" sampleProduct]
      a b c s sample_cookies flaggedCookies_detected
    by auto
qed

text \<open>
  Claim C5 as stated fails on a cookie \<open>_abck\<close> with an empty value: it is present, its
  value does not contain the clean marker, and the session is not flagged.
\<close>

theorem empty_sensor_cookie_not_flagged:
  "sensorCookie emptyValueCookies = Some '''' \<and> \<not> regex_test ''~0~'' ''''
   \<and> \<not> botDetected emptyValueCookies"
  by (simp add: botDetected_def sample_cookies truthy_def)

section \<open>The validation of the total\<close>













section \<open>Invariants of the process\<close>

lemma keeps_ret: "keeps I (ret x)"
  by (simp add: keeps_def ret_def)

lemma keeps_throw: "keeps I (throw m)"
  by (simp add: keeps_def throw_def)

lemma keeps_rethrow: "keeps I (rethrow e)"
  by (simp add: keeps_def rethrow_def)

lemma keeps_process_exit: "keeps I (process_exit c)"
  by (simp add: keeps_def process_exit_def)

lemma keeps_out_of_fuel: "keeps I out_of_fuel"
  by (simp add: keeps_def out_of_fuel_def)

lemma keeps_throw_if: "keeps I (throw_if c m)"
  by (simp add: throw_if_def keeps_ret keeps_throw)

lemma keeps_bnd: "keeps I m \<Longrightarrow> (\<And>x. keeps I (k x)) \<Longrightarrow> keeps I (bnd m k)"
  unfolding keeps_def bnd_def
  by (auto split: prod.splits result.splits)

lemma keeps_sq: "keeps I m \<Longrightarrow> keeps I k \<Longrightarrow> keeps I (sq m k)"
  by (simp add: sq_def keeps_bnd)

lemma keeps_try_catch: "keeps I m \<Longrightarrow> (\<And>e. keeps I (h e)) \<Longrightarrow> keeps I (try_catch m h)"
  unfolding keeps_def try_catch_def
  by (auto split: prod.splits result.splits)

lemma keeps_promiseAll: "keeps I p \<Longrightarrow> keeps I q \<Longrightarrow> keeps I (promiseAll p q)"
  unfolding keeps_def promiseAll_def
  by (auto split: prod.splits)

lemma keeps_if: "keeps I a \<Longrightarrow> keeps I b \<Longrightarrow> keeps I (if c then a else b)"
  by simp

lemma keeps_ask: "safe I a \<Longrightarrow> keeps I (ask a)"
  by (simp add: keeps_def safe_def ask_def)

lemma keeps_observe: "safe I a \<Longrightarrow> keeps I (observe a)"
  by (auto simp: observe_def intro!: keeps_bnd keeps_ask keeps_throw keeps_ret split: obs.splits)

lemma keeps_perform: "safe I a \<Longrightarrow> keeps I (perform a)"
  by (simp add: perform_def keeps_bnd keeps_observe keeps_ret)

lemma keeps_wait: "timeless I \<Longrightarrow> keeps I (wait ms)"
  by (simp add: keeps_def timeless_def wait_def)

lemma keeps_and_also: "keeps I m \<Longrightarrow> keeps I (and_also b m)"
  by (simp add: and_also_def keeps_ret)

lemma keeps_case_option:
  "keeps I a \<Longrightarrow> (\<And>x. keeps I (b x)) \<Longrightarrow> keeps I (case v of None \<Rightarrow> a | Some x \<Rightarrow> b x)"
  by (cases v) simp_all

lemma keeps_existsSync: "exists_safe I \<Longrightarrow> keeps I (existsSync p)"
  by (simp add: keeps_def exists_safe_def existsSync_def Let_def)

lemma keeps_guarded_write:
  assumes "exists_safe I" "write_safe I" "keeps I k"
  shows "keeps I (bnd (existsSync p) (\<lambda>marked.
           sq (if \<not> marked then writeFileSync p else ret ()) k))"
proof -
  have "I (snd (bnd (existsSync p) (\<lambda>marked.
           sq (if \<not> marked then writeFileSync p else ret ()) k) w))" if w: "I w" for w
  proof -
    let ?ex = "purchase_json w \<or> answer w = Created"
    let ?w1 = "(advance (ExistsSync p) w)\<lparr>purchase_json := ?ex\<rparr>"
    have w1: "I ?w1" using assms(1) w by (simp add: exists_safe_def)
    have run: "existsSync p w = (Returns ?ex, ?w1)" by (simp add: existsSync_def Let_def)
    show ?thesis
    proof (cases ?ex)
      case True
      then have "bnd (existsSync p) (\<lambda>marked.
           sq (if \<not> marked then writeFileSync p else ret ()) k) w = k ?w1"
        using run by (simp add: bnd_def sq_def ret_def)
      then show ?thesis using assms(3) w1 by (simp add: keeps_def)
    next
      case False
      then have nj: "\<not> purchase_json ?w1" by simp
      obtain r w2 where wr: "writeFileSync p ?w1 = (r, w2)" by force
      have w2: "I w2"
        using assms(2) w1 nj wr unfolding write_safe_def by (metis snd_conv)
      then have "I (snd (k w2))" using assms(3) by (simp add: keeps_def)
      then show ?thesis
        using run False wr w2 by (cases r) (simp_all add: bnd_def sq_def)
    qed
  qed
  then show ?thesis by (simp add: keeps_def)
qed

lemmas keeps_intros =
  keeps_guarded_write keeps_ret keeps_throw keeps_rethrow keeps_process_exit keeps_out_of_fuel
  keeps_throw_if keeps_bnd keeps_sq keeps_try_catch keeps_promiseAll keeps_if keeps_ask
  keeps_observe keeps_perform keeps_wait keeps_and_also keeps_case_option keeps_existsSync

lemmas page_defs =
  open_def close_def goToProductPage_def validateProductMatch_def isInStock_def
  hasItemBeenAddedToCart_def addToCart_def isCartEmpty_def elementTextContent_def
  changeZipCode_def clickCheckoutButton_def trySelectShipping_def continueAsGuest_def
  completeShippingInformation_def completeContactInformation_def completePaymentInformation_def
  completeOrderInformation_def readParsedTotal_def sendDiscordMessage_def sendTelegramMessage_def
  mathRandom_def pm2Connect_def

lemma selectShipping_3:
  "selectShipping 3 =
     try_catch trySelectShipping (\<lambda>error. throw ''Can't select shipping, aborting attempt'')"
  by (subst selectShipping.simps) simp

lemma selectShipping_2: "selectShipping 2 = try_catch trySelectShipping (\<lambda>error. selectShipping 3)"
  by (subst selectShipping.simps) (simp add: eval_nat_numeral)

lemma selectShipping_1: "selectShipping 1 = try_catch trySelectShipping (\<lambda>error. selectShipping 2)"
  by (subst selectShipping.simps) (simp add: eval_nat_numeral)

lemma selectShipping_unrolled:
  "selectShipping 1 =
     try_catch trySelectShipping (\<lambda>error.
       try_catch trySelectShipping (\<lambda>error.
         try_catch trySelectShipping (\<lambda>error.
           throw ''Can't select shipping, aborting attempt'')))"
  by (simp only: selectShipping_1 selectShipping_2 selectShipping_3)




lemmas selector_defs =
  is_write_def placeOrderButton_def shippingOption_def addToCartButton_def guestButton_def











section \<open>The purchase guard\<close>

lemma advance_simps:
  "trace (advance a w) = trace w @ [(a, answer w)]"
  "script (advance a w) = tl (script w)"
  "purchase_json (advance a w) = purchase_json w"
  by (simp_all add: advance_def)


lemma marker_writes_update [simp]:
  "marker_writes (w\<lparr>purchase_json := b\<rparr>) = marker_writes w"
  "marker_writes (w\<lparr>trace := trace w @ [(Sleep ms, Ok)]\<rparr>) = marker_writes w"
  by (simp_all add: marker_writes_def is_write_def)




lemma sq_perform_ok: "\<not> is_Fails (answer w) \<Longrightarrow> sq (perform a) k w = k (advance a w)"
  by (simp add: sq_def bnd_def perform_if)






section \<open>Shipping selection\<close>




section \<open>Checkout and the candidate loop\<close>








lemma purchaseAttempt_True: "purchaseAttempt fuel cfg p w = (Returns b, w') \<Longrightarrow> b"
  by (auto simp: purchaseAttempt_def sq_def bnd_def ret_def split: prod.splits result.splits)

lemma purchaseLoop_Cons:
  "purchaseLoop fuel cfg (p # ps) w =
     (case purchaseAttempt fuel cfg p w of
        (Throws e, w') \<Rightarrow> if message e = botMessage then (Throws e, w') else purchaseLoop fuel cfg ps w'
      | other \<Rightarrow> other)"
  by (auto simp: try_catch_def rethrow_def split: prod.splits result.splits)

lemma purchaseLoop_False:
  "purchaseLoop fuel cfg ps w = (Returns False, w') \<longleftrightarrow> skipped fuel cfg ps w = Some w'"
proof (induction ps arbitrary: w)
  case Nil
  show ?case by (auto simp: ret_def)
next
  case (Cons p ps)
  show ?case
    using Cons.IH purchaseAttempt_True[of fuel cfg p w False]
    by (auto simp: purchaseLoop_Cons simp del: purchaseLoop.simps split: prod.splits result.splits)
qed

lemma purchaseLoop_stops:
  assumes "r0 \<noteq> Returns False" "\<And>e. r0 = Throws e \<Longrightarrow> message e = botMessage"
  shows "purchaseLoop fuel cfg ps w = (r0, w') \<longleftrightarrow>
     (\<exists>qs p rest w1. ps = qs @ p # rest \<and> skipped fuel cfg qs w = Some w1
        \<and> purchaseAttempt fuel cfg p w1 = (r0, w'))"
proof (induction ps arbitrary: w)
  case Nil
  show ?case using assms(1) by (auto simp: ret_def)
next
  case (Cons p ps)
  obtain r v where pa: "purchaseAttempt fuel cfg p w = (r, v)" by force
  show ?case
  proof (cases "\<exists>e. r = Throws e \<and> message e \<noteq> botMessage")
    case True
    then obtain e where e: "r = Throws e" "message e \<noteq> botMessage" by blast
    have "purchaseLoop fuel cfg (p # ps) w = purchaseLoop fuel cfg ps v"
      using pa e by (simp add: purchaseLoop_Cons del: purchaseLoop.simps)
    moreover have "(\<exists>qs q rest w1. p # ps = qs @ q # rest \<and> skipped fuel cfg qs w = Some w1
        \<and> purchaseAttempt fuel cfg q w1 = (r0, w'))
      \<longleftrightarrow> (\<exists>qs q rest w1. ps = qs @ q # rest \<and> skipped fuel cfg qs v = Some w1
        \<and> purchaseAttempt fuel cfg q w1 = (r0, w'))" (is "?L \<longleftrightarrow> ?R")
    proof
      assume ?L
      then obtain qs q rest w1 where h: "p # ps = qs @ q # rest" "skipped fuel cfg qs w = Some w1"
        "purchaseAttempt fuel cfg q w1 = (r0, w')" by blast
      show ?R
      proof (cases qs)
        case Nil
        then show ?thesis using h pa e assms(2) by auto
      next
        case (Cons a qs')
        then have "ps = qs' @ q # rest" "skipped fuel cfg qs' v = Some w1"
          using h pa e by simp_all
        then show ?thesis using h(3) by blast
      qed
    next
      assume ?R
      then obtain qs q rest w1 where h: "ps = qs @ q # rest" "skipped fuel cfg qs v = Some w1"
        "purchaseAttempt fuel cfg q w1 = (r0, w')" by blast
      have "p # ps = (p # qs) @ q # rest" "skipped fuel cfg (p # qs) w = Some w1"
        using h pa e by simp_all
      then show ?L using h(3) by blast
    qed
    ultimately show ?thesis using Cons.IH[of v] by simp
  next
    case False
    have stop: "purchaseLoop fuel cfg (p # ps) w = (r, v)"
      using pa False by (cases r) (auto simp: purchaseLoop_Cons simp del: purchaseLoop.simps)
    have none: "skipped fuel cfg (q # qs) w = None" if "q = p" for q qs
      using pa False that by (cases r) auto
    have "(\<exists>qs q rest w1. p # ps = qs @ q # rest \<and> skipped fuel cfg qs w = Some w1
        \<and> purchaseAttempt fuel cfg q w1 = (r0, w'))
      \<longleftrightarrow> (r, v) = (r0, w')" (is "?L \<longleftrightarrow> ?R")
    proof
      assume ?L
      then obtain qs q rest w1 where h: "p # ps = qs @ q # rest" "skipped fuel cfg qs w = Some w1"
        "purchaseAttempt fuel cfg q w1 = (r0, w')" by blast
      show ?R
      proof (cases qs)
        case Nil
        then show ?thesis using h pa by simp
      next
        case (Cons a qs')
        then show ?thesis using h none[of a qs'] by simp
      qed
    next
      assume ?R
      then have "p # ps = [] @ p # ps" "skipped fuel cfg [] w = Some w"
        "purchaseAttempt fuel cfg p w = (r0, w')" using pa by simp_all
      then show ?L by blast
    qed
    then show ?thesis using stop by simp
  qed
qed

lemma purchaseLoop_throws_bot:
  "purchaseLoop fuel cfg ps w = (Throws e, w') \<Longrightarrow> message e = botMessage"
proof (induction ps arbitrary: w)
  case Nil
  then show ?case by (simp add: ret_def)
next
  case (Cons p ps)
  then show ?case
    by (auto simp: purchaseLoop_Cons simp del: purchaseLoop.simps
        split: prod.splits result.splits if_splits)
qed

text \<open>
  Claim C7. After the navigation to the home page, \<open>purchaseProduct\<close> runs the candidate
  loop on the configured list. The loop returns true exactly when some candidate's full
  flow completes after every candidate before it, tried in list order, has thrown an error
  other than the bot-detection one; it returns false exactly when every candidate has been
  tried so; and it throws exactly when, after such a run of skipped candidates, a candidate
  throws the bot-detection error, which is what the loop throws, the candidates after it
  being left untried.
\<close>

theorem purchaseProduct_candidates_in_order:
  "(purchaseLoop fuel cfg ps w = (Returns True, w') \<longleftrightarrow>
      (\<exists>qs p rest w1. ps = qs @ p # rest \<and> skipped fuel cfg qs w = Some w1
         \<and> purchaseAttempt fuel cfg p w1 = (Returns True, w')))
   \<and> (purchaseLoop fuel cfg ps w = (Returns False, w') \<longleftrightarrow> skipped fuel cfg ps w = Some w')
   \<and> (purchaseLoop fuel cfg ps w = (Throws e, w') \<longleftrightarrow>
        message e = botMessage
        \<and> (\<exists>qs p rest w1. ps = qs @ p # rest \<and> skipped fuel cfg qs w = Some w1
              \<and> purchaseAttempt fuel cfg p w1 = (Throws e, w')))
   \<and> (\<not> is_Fails (answer w) \<longrightarrow>
        purchaseProduct fuel cfg w =
          purchaseLoop fuel cfg (products cfg) (advance (Goto ''https://bestbuy.com'') w))"
proof (intro conjI impI)
  show "purchaseLoop fuel cfg ps w = (Returns True, w') \<longleftrightarrow>
      (\<exists>qs p rest w1. ps = qs @ p # rest \<and> skipped fuel cfg qs w = Some w1
         \<and> purchaseAttempt fuel cfg p w1 = (Returns True, w'))"
    by (rule purchaseLoop_stops) simp_all
  show "purchaseLoop fuel cfg ps w = (Returns False, w') \<longleftrightarrow> skipped fuel cfg ps w = Some w'"
    by (rule purchaseLoop_False)
  show "purchaseLoop fuel cfg ps w = (Throws e, w') \<longleftrightarrow>
        message e = botMessage
        \<and> (\<exists>qs p rest w1. ps = qs @ p # rest \<and> skipped fuel cfg qs w = Some w1
              \<and> purchaseAttempt fuel cfg p w1 = (Throws e, w'))"
  proof (cases "message e = botMessage")
    case True
    then show ?thesis using purchaseLoop_stops[of "Throws e" fuel cfg ps w w'] by simp
  next
    case False
    then show ?thesis using purchaseLoop_throws_bot[of fuel cfg ps w e w'] by auto
  qed
  assume "\<not> is_Fails (answer w)"
  then show "purchaseProduct fuel cfg w =
          purchaseLoop fuel cfg (products cfg) (advance (Goto ''https://bestbuy.com'') w)"
    by (simp add: purchaseProduct_def sq_def bnd_def perform_if)
qed

section \<open>Examples\<close>







lemmas selectShipping_Suc_0 = selectShipping_unrolled [unfolded One_nat_def]

lemmas eval_defs =
  purchaseAttempt_def page_defs submitGuestOrder_def placeOrder_def recordOrder_def
  sampleConfig_def sampleProduct_def sampleCustomer_def samplePayment_def sampleParseFloat_def
  cleanCookies_def otherCookies_def flaggedCookies_def
  sq_def bnd_def ret_def throw_def throw_if_def and_also_def perform_if observe_ok promiseAll_def
  advance_def answer_def is_Fails_def failure_def wait_def existsSync_def writeFileSync_def
  elem_of_def text_of_def cookies_of_def truthy_def botDetected_def sensorCookie_def
  js_trim_def js_whitespace_def parseTotal_def totalMismatch_def js_strict_eq_def
  selectShipping_Suc_0 try_catch_run is_Throws_def process_exit_def bestBuyUrl_def
  numeral_eq_Suc Let_def

lemma happy_run:
  "case purchaseAttempt 1 sampleConfig sampleProduct \<lparr>script = happy, purchase_json = False, trace = t\<rparr> of
     (r, w') \<Rightarrow> r = Returns True \<and> purchase_json w' \<and> script w' = []"
  by (simp add: eval_defs happy_def)

lemma outOfStock_run:
  "purchaseAttempt 1 sampleConfig sampleProduct (start (outOfStock @ xs)) =
     (Throws (Error ''Product not in stock, aborting attempt''),
      \<lparr>script = xs, purchase_json = False,
       trace = [(Goto ''https://bestbuy.com/site/rtx-3080/6429440.p'', Ok),
                (WaitForSelector ''.sku.product-data'', Ok),
                (EvalTextContent ''.sku.product-data .product-data-value'', Text (Some ''6429440'')),
                (Cookies, CookieJar otherCookies),
                (Query addToCartButton, Elem False)]\<rparr>)"
  by (simp add: eval_defs outOfStock_def start_def del: checkout.simps)

lemma flagged_run:
  "fst (purchaseAttempt 1 sampleConfig sampleProduct (start flaggedSession)) = Throws (Error botMessage)"
  by (simp add: eval_defs flaggedSession_def start_def del: checkout.simps)


theorem purchaseProduct_candidates_in_order_witness:
  "fst (purchaseLoop 1 sampleConfig [sampleProduct, sampleProduct] (start (outOfStock @ happy))) = Returns True
   \<and> fst (purchaseLoop 1 sampleConfig [sampleProduct] (start (outOfStock @ []))) = Returns False
   \<and> fst (purchaseLoop 1 sampleConfig [sampleProduct, sampleProduct] (start flaggedSession)) = Throws (Error botMessage)
   \<and> purchaseProduct 1 sampleConfig (start []) = purchaseLoop 1 sampleConfig [sampleProduct] (advance (Goto ''https://bestbuy.com'') (start []))"
proof -
  let ?w1 = "\<lambda>xs. \<lparr>script = xs, purchase_json = False,
       trace = [(Goto ''https://bestbuy.com/site/rtx-3080/6429440.p'', Ok),
                (WaitForSelector ''.sku.product-data'', Ok),
                (EvalTextContent ''.sku.product-data .product-data-value'', Text (Some ''6429440'')),
                (Cookies, CookieJar otherCookies),
                (Query addToCartButton, Elem False)]\<rparr>"
  have sk: "skipped 1 sampleConfig [sampleProduct] (start (outOfStock @ xs)) = Some (?w1 xs)" for xs
    by (simp add: outOfStock_run botMessage_def del: One_nat_def)
  obtain w2 where h: "purchaseAttempt 1 sampleConfig sampleProduct (?w1 happy) = (Returns True, w2)"
    using happy_run[of "trace (?w1 happy)"] by (auto split: prod.splits)
  have "\<exists>qs p rest w1. [sampleProduct, sampleProduct] = qs @ p # rest
          \<and> skipped 1 sampleConfig qs (start (outOfStock @ happy)) = Some w1
          \<and> purchaseAttempt 1 sampleConfig p w1 = (Returns True, w2)"
    using sk[of happy] h
    by (intro exI[of _ "[sampleProduct]"] exI[of _ sampleProduct] exI[of _ "[]"]
        exI[of _ "?w1 happy"]) (simp only: append_Cons append_Nil simp_thms)
  then have t: "purchaseLoop 1 sampleConfig [sampleProduct, sampleProduct]
                  (start (outOfStock @ happy)) = (Returns True, w2)"
    by (rule iffD2[OF purchaseProduct_candidates_in_order[THEN conjunct1]])
  have f: "purchaseLoop 1 sampleConfig [sampleProduct] (start (outOfStock @ [])) =
             (Returns False, ?w1 [])"
    using sk[of "[]"]
    by (rule iffD2[OF purchaseProduct_candidates_in_order[THEN conjunct2, THEN conjunct1]])
  obtain w3 where b: "purchaseAttempt 1 sampleConfig sampleProduct (start flaggedSession) =
                        (Throws (Error botMessage), w3)"
    using flagged_run by (cases "purchaseAttempt 1 sampleConfig sampleProduct (start flaggedSession)") simp
  have "message (Error botMessage) = botMessage
        \<and> (\<exists>qs p rest w1. [sampleProduct, sampleProduct] = qs @ p # rest
          \<and> skipped 1 sampleConfig qs (start flaggedSession) = Some w1
          \<and> purchaseAttempt 1 sampleConfig p w1 = (Throws (Error botMessage), w3))"
    using b
    by (intro conjI exI[of _ "[]"] exI[of _ sampleProduct] exI[of _ "[sampleProduct]"]
        exI[of _ "start flaggedSession"]) simp_all
  then have e: "purchaseLoop 1 sampleConfig [sampleProduct, sampleProduct] (start flaggedSession) =
                  (Throws (Error botMessage), w3)"
    by (rule iffD2[OF purchaseProduct_candidates_in_order
          [THEN conjunct2, THEN conjunct2, THEN conjunct1]])
  have g: "purchaseProduct 1 sampleConfig (start []) =
             purchaseLoop 1 sampleConfig [sampleProduct] (advance (Goto ''https://bestbuy.com'') (start []))"
    using purchaseProduct_candidates_in_order
            [THEN conjunct2, THEN conjunct2, THEN conjunct2, of "start []" 1 sampleConfig]
    by (simp add: start_def answer_def is_Fails_def sampleConfig_def)
  show ?thesis using t f e g by (simp only: fst_conv simp_thms)
qed

section \<open>Notifications\<close>

lemma kor_keeps: "keeps I m \<Longrightarrow> keeps_on_return I m"
  by (simp add: keeps_def keeps_on_return_def)

lemma kor_ret: "keeps_on_return I (ret x)"
  by (simp add: keeps_on_return_def ret_def)

lemma kor_throw: "keeps_on_return I (throw m)"
  by (simp add: keeps_on_return_def throw_def is_Returns_def)

lemma kor_process_exit: "keeps_on_return I (process_exit c)"
  by (simp add: keeps_on_return_def process_exit_def is_Returns_def)

lemma kor_out_of_fuel: "keeps_on_return I out_of_fuel"
  by (simp add: keeps_on_return_def out_of_fuel_def is_Returns_def)

lemma kor_throw_if: "keeps_on_return I (throw_if c m)"
  by (simp add: throw_if_def kor_ret kor_throw)

lemma kor_bnd:
  "keeps_on_return I m \<Longrightarrow> (\<And>x. keeps_on_return I (k x)) \<Longrightarrow> keeps_on_return I (bnd m k)"
  unfolding keeps_on_return_def bnd_def
  by (auto simp: is_Returns_def split: prod.splits result.splits)

lemma kor_sq: "keeps_on_return I m \<Longrightarrow> keeps_on_return I k \<Longrightarrow> keeps_on_return I (sq m k)"
  by (simp add: sq_def kor_bnd)

lemma kor_try_catch:
  "keeps I m \<Longrightarrow> (\<And>e. keeps_on_return I (h e)) \<Longrightarrow> keeps_on_return I (try_catch m h)"
  unfolding keeps_on_return_def keeps_def try_catch_def
  by (auto simp: is_Returns_def split: prod.splits result.splits)

lemma kor_promiseAll:
  "keeps_on_return I p \<Longrightarrow> keeps_on_return I q \<Longrightarrow> keeps_on_return I (promiseAll p q)"
  unfolding keeps_on_return_def promiseAll_def
  by (auto simp: is_Returns_def split: prod.splits result.splits) (metis fst_conv snd_conv)

lemma kor_if:
  "keeps_on_return I a \<Longrightarrow> keeps_on_return I b \<Longrightarrow> keeps_on_return I (if c then a else b)"
  by simp

lemma kor_case_option:
  "keeps_on_return I a \<Longrightarrow> (\<And>x. keeps_on_return I (b x)) \<Longrightarrow>
   keeps_on_return I (case v of None \<Rightarrow> a | Some x \<Rightarrow> b x)"
  by (cases v) simp_all

lemma kor_and_also: "keeps_on_return I m \<Longrightarrow> keeps_on_return I (and_also b m)"
  by (simp add: and_also_def kor_ret)

lemma kor_observe: "safe_ok I a \<Longrightarrow> keeps_on_return I (observe a)"
  unfolding keeps_on_return_def safe_ok_def observe_def bnd_def ask_def
  by (auto simp: is_Returns_def is_Fails_def throw_def ret_def split: obs.splits)

lemma kor_perform: "safe_ok I a \<Longrightarrow> keeps_on_return I (perform a)"
  by (simp add: perform_def kor_bnd kor_observe kor_ret)

lemma kor_guarded_write:
  assumes "exists_safe I" "write_safe I" "keeps_on_return I k"
  shows "keeps_on_return I (bnd (existsSync p) (\<lambda>marked.
           sq (if \<not> marked then writeFileSync p else ret ()) k))"
proof -
  have "I (snd (bnd (existsSync p) (\<lambda>marked.
           sq (if \<not> marked then writeFileSync p else ret ()) k) w))"
    if w: "I w" and r: "is_Returns (fst (bnd (existsSync p) (\<lambda>marked.
           sq (if \<not> marked then writeFileSync p else ret ()) k) w))" for w
  proof -
    let ?ex = "purchase_json w \<or> answer w = Created"
    let ?w1 = "(advance (ExistsSync p) w)\<lparr>purchase_json := ?ex\<rparr>"
    have w1: "I ?w1" using assms(1) w by (simp add: exists_safe_def)
    have run: "existsSync p w = (Returns ?ex, ?w1)" by (simp add: existsSync_def Let_def)
    show ?thesis
    proof (cases ?ex)
      case True
      then have "bnd (existsSync p) (\<lambda>marked.
           sq (if \<not> marked then writeFileSync p else ret ()) k) w = k ?w1"
        using run by (simp add: bnd_def sq_def ret_def)
      then show ?thesis using assms(3) w1 r by (simp add: keeps_on_return_def)
    next
      case False
      then have nj: "\<not> purchase_json ?w1" by simp
      obtain r1 w2 where wr: "writeFileSync p ?w1 = (r1, w2)" by force
      have w2: "I w2"
        using assms(2) w1 nj wr unfolding write_safe_def by (metis snd_conv)
      show ?thesis
        using run False wr w2 r assms(3)
        by (cases r1) (simp_all add: bnd_def sq_def keeps_on_return_def is_Returns_def)
    qed
  qed
  then show ?thesis by (simp add: keeps_on_return_def)
qed

lemmas kor_intros =
  kor_guarded_write kor_ret kor_throw kor_process_exit kor_out_of_fuel kor_throw_if kor_bnd
  kor_sq kor_try_catch kor_promiseAll kor_if kor_case_option kor_and_also kor_observe
  kor_perform

lemma safe_notifications: "\<not> is_notification a \<Longrightarrow> safe notifications_delivered a"
  by (simp add: safe_def notifications_delivered_def advance_simps)

lemma safe_ok_notifications: "safe_ok notifications_delivered a"
  by (simp add: safe_ok_def notifications_delivered_def advance_simps)

lemma notifications_misc:
  "timeless notifications_delivered" "exists_safe notifications_delivered"
  "write_safe notifications_delivered"
  by (auto simp: timeless_def exists_safe_def write_safe_def notifications_delivered_def
      advance_simps writeFileSync_def is_notification_def split: obs.splits)

lemmas delivered_intros =
  kor_intros keeps_intros safe_ok_notifications safe_notifications notifications_misc
  kor_keeps[OF keeps_wait] kor_keeps[OF keeps_existsSync]

lemma kor_addToCart: "keeps_on_return notifications_delivered (addToCart product)"
  unfolding page_defs block.simps
  by (intro delivered_intros allI)


lemma kor_checkout: "keeps_on_return notifications_delivered (checkout fuel cfg retrying)"
proof (induction fuel arbitrary: retrying)
  case 0
  show ?case by (simp add: kor_out_of_fuel)
next
  case (Suc fuel)
  show ?case
    unfolding checkout.simps page_defs selectShipping_unrolled block.simps
    by (intro delivered_intros Suc allI) (simp_all add: is_notification_def)
qed

lemma kor_submitGuestOrder: "keeps_on_return notifications_delivered (submitGuestOrder cfg)"
  unfolding submitGuestOrder_def placeOrder_def recordOrder_def page_defs block.simps
  by (intro delivered_intros allI)


lemma kor_shutDown: "keeps_on_return notifications_delivered shutDown"
  unfolding shutDown_def page_defs block.simps
  by (intro delivered_intros allI)

section \<open>Retry passes of checkout\<close>

lemma passes_advance:
  "checkoutPasses (advance a w) = checkoutPasses w + (if a = Goto cartUrl then 1 else 0)"
  "promptTimeouts (advance a w) =
     promptTimeouts w + (if a = WaitForSelector guestButton \<and> is_Fails (answer w) then 1 else 0)"
  by (simp_all add: checkoutPasses_def promptTimeouts_def advance_simps)

lemma safe_passes_within: "a \<noteq> Goto cartUrl \<Longrightarrow> safe (passes_within d) a"
  by (simp add: safe_def passes_within_def passes_advance)

lemma timeless_passes_within: "timeless (passes_within d)"
  by (simp add: timeless_def passes_within_def checkoutPasses_def promptTimeouts_def)

lemma passes_within_mono: "passes_within d w \<Longrightarrow> d \<le> d' \<Longrightarrow> passes_within d' w"
  by (simp add: passes_within_def)

lemma snd_sq:
  "snd (sq m k w) = (if is_Returns (fst (m w)) then snd (k (snd (m w))) else snd (m w))"
  by (cases "m w"; cases "fst (m w)") (auto simp: sq_def bnd_def is_Returns_def)

lemma checkout_passes_within:
  "passes_within d w \<Longrightarrow> passes_within (d + 1) (snd (checkout fuel cfg retrying w))"
proof (induction fuel arbitrary: d w retrying)
  case 0
  then show ?case by (simp add: out_of_fuel_def passes_within_mono)
next
  case (Suc fuel)
  let ?I = "passes_within (d + 1)"
  let ?notify = "promiseAll (sendDiscordMessage ''Checkout did not went through, trying again'')
                       (sendTelegramMessage ''Checkout did not went through, trying again'')"
  let ?retry = "\<lambda>error :: js_error. sq ?notify (checkout fuel cfg True)"
  have notify: "keeps (passes_within d) ?notify"
    unfolding page_defs
    by (intro keeps_intros safe_passes_within) simp_all
  have handler: "?I (snd (?retry e v))" if "passes_within d v" for e v
  proof -
    have v1: "passes_within d (snd (?notify v))" using notify that by (simp add: keeps_def)
    then have "?I (snd (checkout fuel cfg True (snd (?notify v))))" by (rule Suc.IH)
    moreover have "?I (snd (?notify v))" using v1 by (rule passes_within_mono) simp
    ultimately show ?thesis by (simp add: snd_sq)
  qed
  have wait_prompt: "keeps ?I (try_catch (perform (WaitForSelector guestButton)) ?retry)"
    unfolding keeps_def
  proof (intro allI impI)
    fix v assume v: "?I v"
    let ?v1 = "advance (WaitForSelector guestButton) v"
    show "?I (snd (try_catch (perform (WaitForSelector guestButton)) ?retry v))"
    proof (cases "is_Fails (answer v)")
      case True
      then have "passes_within d ?v1" using v by (simp add: passes_within_def passes_advance)
      then have "?I (snd (?retry (failure (answer v)) ?v1))" by (rule handler)
      then show ?thesis using True by (simp add: try_catch_def perform_if)
    next
      case False
      then have "?I ?v1" using v by (simp add: passes_within_def passes_advance)
      then show ?thesis using False by (simp add: try_catch_def perform_if)
    qed
  qed
  have rest: "keeps ?I
     (bnd (and_also retrying isCartEmpty) (\<lambda>empty.
     sq (throw_if empty ''Cart is empty, aborting attempt'')
     (sq (if \<not> retrying
          then sq (changeZipCode (zipcode (customer cfg))) (selectShipping 1)
          else ret ())
     (sq (perform (Screenshot ''starting-checkout''))
     (sq (promiseAll (sendDiscordMessage ''Attempting checkout'')
                     (sendTelegramMessage ''Attempting checkout''))
     (sq clickCheckoutButton
     (try_catch (perform (WaitForSelector guestButton)) ?retry)))))))"
    unfolding page_defs selectShipping_unrolled block.simps
    by (intro wait_prompt[unfolded page_defs] keeps_intros safe_passes_within
          timeless_passes_within allI) simp_all
  have w1: "?I (advance (Goto cartUrl) w)"
    using Suc.prems by (simp add: passes_within_def passes_advance)
  show ?case
    using w1 rest
    by (simp add: snd_sq perform_if keeps_def cartUrl_def[symmetric])
qed

lemmas pass_defs =
  sq_def bnd_def ret_def throw_def throw_if_def and_also_def perform_if observe_ok promiseAll_def
  page_defs advance_def answer_def is_Fails_def failure_def elem_of_def text_of_def truthy_def
  try_catch_run is_Throws_def numeral_eq_Suc

lemma retry_pass_timeout:
  assumes "script w = retryTimeout @ rest"
  shows "checkout (Suc fuel) cfg True w = checkout fuel cfg True (retried w rest)"
  using assms
  by (simp add: pass_defs retryTimeout_def retried_def cartUrl_def cartTitle_def)

lemma retried_counts:
  "checkoutPasses (retried w rest) = checkoutPasses w + 1"
  "promptTimeouts (retried w rest) = promptTimeouts w + 1"
  "script (retried w rest) = rest"
  by (simp_all add: retried_def checkoutPasses_def promptTimeouts_def is_Fails_def cartUrl_def)

lemma retry_pass_prompt:
  assumes "script w = []"
  shows "fst (checkout (Suc fuel) cfg True w) = Returns ()"
    "checkoutPasses (snd (checkout (Suc fuel) cfg True w)) = checkoutPasses w + 1"
    "promptTimeouts (snd (checkout (Suc fuel) cfg True w)) = promptTimeouts w"
  using assms
  by (simp_all add: pass_defs checkoutPasses_def promptTimeouts_def cartUrl_def)

lemma retries_follow_timeouts:
  "script w = timeoutsThenPrompt k \<Longrightarrow>
     fst (checkout (Suc k) cfg True w) = Returns ()
     \<and> checkoutPasses (snd (checkout (Suc k) cfg True w)) = checkoutPasses w + k + 1
     \<and> promptTimeouts (snd (checkout (Suc k) cfg True w)) = promptTimeouts w + k"
proof (induction k arbitrary: w)
  case 0
  then show ?case using retry_pass_prompt[of w 0 cfg] by simp
next
  case (Suc k)
  then have s: "script w = retryTimeout @ timeoutsThenPrompt k" by simp
  show ?case
    using Suc.IH[of "retried w (timeoutsThenPrompt k)"]
    by (simp add: retry_pass_timeout[OF s] retried_counts del: checkout.simps)
qed

lemma first_pass_timeout:
  assumes "script w = firstPassTimeout @ rest"
  shows "checkout (Suc fuel) cfg False w = checkout fuel cfg True (firstTried cfg w rest)"
  using assms
  by (simp add: pass_defs firstPassTimeout_def firstTried_def cartUrl_def selectShipping_Suc_0
      wait_def)

lemma firstTried_counts:
  "checkoutPasses (firstTried cfg w rest) = checkoutPasses w + 1"
  "promptTimeouts (firstTried cfg w rest) = promptTimeouts w + 1"
  "script (firstTried cfg w rest) = rest"
  by (simp_all add: firstTried_def checkoutPasses_def promptTimeouts_def is_Fails_def cartUrl_def
      selector_defs)

lemma first_pass_then_retries:
  assumes "script w = firstPassTimeout @ timeoutsThenPrompt k"
  shows "fst (checkout (Suc (Suc k)) cfg False w) = Returns ()
     \<and> checkoutPasses (snd (checkout (Suc (Suc k)) cfg False w)) = checkoutPasses w + k + 2
     \<and> promptTimeouts (snd (checkout (Suc (Suc k)) cfg False w)) = promptTimeouts w + k + 1"
  using retries_follow_timeouts[of "firstTried cfg w (timeoutsThenPrompt k)" k cfg]
  by (simp add: first_pass_timeout[OF assms] firstTried_counts del: checkout.simps)

text \<open>
  Claim C3, as the code has it. A pass of \<open>checkout\<close> whose wait for the guest-checkout
  prompt times out calls \<open>checkout\<close> again in retry mode, and so does a retry pass that
  times out in turn. In every execution the passes made (openings of the cart page) exceed
  the first one by at most the number of timeouts; and for every \<open>k\<close>, under the answers
  of a first pass and \<open>k\<close> retry passes that all time out, followed by the prompt,
  \<open>checkout\<close> returns after \<open>k + 2\<close> passes: the retry passes are not bounded by one.
\<close>

theorem checkout_retries_once_per_timeout:
  "checkoutPasses (snd (checkout fuel cfg retrying w)) + promptTimeouts w
     \<le> checkoutPasses w + 1 + promptTimeouts (snd (checkout fuel cfg retrying w))
   \<and> (script w = firstPassTimeout @ timeoutsThenPrompt k \<longrightarrow>
        fst (checkout (Suc (Suc k)) cfg False w) = Returns ()
        \<and> checkoutPasses (snd (checkout (Suc (Suc k)) cfg False w)) = checkoutPasses w + k + 2
        \<and> promptTimeouts (snd (checkout (Suc (Suc k)) cfg False w)) = promptTimeouts w + k + 1)"
proof -
  have "passes_within (int (checkoutPasses w) - int (promptTimeouts w)) w"
    by (simp add: passes_within_def)
  then have "passes_within (int (checkoutPasses w) - int (promptTimeouts w) + 1)
               (snd (checkout fuel cfg retrying w))"
    by (rule checkout_passes_within)
  then have "checkoutPasses (snd (checkout fuel cfg retrying w)) + promptTimeouts w
     \<le> checkoutPasses w + 1 + promptTimeouts (snd (checkout fuel cfg retrying w))"
    by (simp add: passes_within_def)
  then show ?thesis using first_pass_then_retries[of w k cfg] by blast
qed

theorem checkout_retries_once_per_timeout_witness:
  "fst (checkout (Suc (Suc 1)) sampleConfig False (start twoTimeouts)) = Returns ()
   \<and> checkoutPasses (snd (checkout (Suc (Suc 1)) sampleConfig False (start twoTimeouts))) = 3
   \<and> promptTimeouts (snd (checkout (Suc (Suc 1)) sampleConfig False (start twoTimeouts))) = 2"
  using checkout_retries_once_per_timeout [of "Suc (Suc 1)" sampleConfig False "start twoTimeouts" 1]
  by (simp add: twoTimeouts_def start_def checkoutPasses_def promptTimeouts_def del: checkout.simps One_nat_def)

text \<open>
  The bound of claim C3 fails: with two timeouts in a row, \<open>checkout\<close> opens the cart
  page three times, two of them in retry mode.
\<close>

theorem checkout_two_extra_passes:
  "fst (checkout 3 sampleConfig False (start twoTimeouts)) = Returns ()
   \<and> checkoutPasses (start twoTimeouts) = 0
   \<and> checkoutPasses (snd (checkout 3 sampleConfig False (start twoTimeouts))) = 3"
  using first_pass_then_retries [of "start twoTimeouts" 1 sampleConfig]
  by (simp add: twoTimeouts_def start_def checkoutPasses_def eval_nat_numeral del: checkout.simps)

text \<open>
  Claim C4, as the code has it. A rejected notification makes the step that sent it fail:
  \<open>addToCart\<close>, \<open>checkout\<close>, \<open>submitGuestOrder\<close> and the shutdown of \<open>main\<close> return only
  when every notification sent so far has been delivered, because the join of the two sends
  throws the rejection of the one that failed, and nothing catches it inside the step.
\<close>

theorem notification_failure_aborts_step:
  "(notifications_delivered w \<and> is_Returns (fst (addToCart product w)) \<longrightarrow>
      notifications_delivered (snd (addToCart product w)))
   \<and> (notifications_delivered w \<and> is_Returns (fst (checkout fuel cfg retrying w)) \<longrightarrow>
      notifications_delivered (snd (checkout fuel cfg retrying w)))
   \<and> (notifications_delivered w \<and> is_Returns (fst (submitGuestOrder cfg w)) \<longrightarrow>
      notifications_delivered (snd (submitGuestOrder cfg w)))
   \<and> (notifications_delivered w \<and> is_Returns (fst (shutDown w)) \<longrightarrow>
      notifications_delivered (snd (shutDown w)))
   \<and> (is_Fails (answer w) \<longrightarrow>
        fst (promiseAll (sendDiscordMessage m1) (sendTelegramMessage m2) w) =
          Throws (failure (answer w)))
   \<and> (\<not> is_Fails (answer w) \<and> is_Fails (answer (advance (Discord m1) w)) \<longrightarrow>
        fst (promiseAll (sendDiscordMessage m1) (sendTelegramMessage m2) w) =
          Throws (failure (answer (advance (Discord m1) w))))"
  using kor_addToCart[of product] kor_checkout[of fuel cfg retrying] kor_submitGuestOrder[of cfg]
    kor_shutDown
  by (simp add: keeps_on_return_def notify_if)

lemma addToCart_inStock:
  "fst (addToCart sampleProduct (start (inStock @ [Ok, Ok, Ok]))) = Returns ()"
  "fst (addToCart sampleProduct (start (inStock @ [Ok, Ok, Fails ''discord unreachable'']))) =
     Throws (Error ''discord unreachable'')"
  by (simp_all add: eval_defs inStock_def start_def)

lemma returning_steps:
  "is_Returns (fst (addToCart sampleProduct (start (inStock @ [Ok, Ok, Ok]))))"
  "is_Returns (fst (checkout 1 sampleConfig True (start [])))"
  "is_Returns (fst (submitGuestOrder sampleConfig (start (orderScript ''$699.99''))))"
  "is_Returns (fst (shutDown (start [])))"
  by (simp_all add: eval_defs inStock_def start_def orderScript_def shutDown_def is_Returns_def
      js_toLowerCase_def js_lower_char_def)

theorem notification_failure_aborts_step_witness:
  "notifications_delivered (snd (addToCart sampleProduct (start (inStock @ [Ok, Ok, Ok]))))
   \<and> notifications_delivered (snd (checkout 1 sampleConfig True (start [])))
   \<and> notifications_delivered (snd (submitGuestOrder sampleConfig (start (orderScript ''$699.99''))))
   \<and> notifications_delivered (snd (shutDown (start [])))
   \<and> fst (promiseAll (sendDiscordMessage ''Attempting checkout'')
             (sendTelegramMessage ''Attempting checkout'') (start [Fails ''discord unreachable''])) =
       Throws (Error ''discord unreachable'')
   \<and> fst (promiseAll (sendDiscordMessage ''Attempting checkout'')
             (sendTelegramMessage ''Attempting checkout'') (start [Ok, Fails ''telegram unreachable''])) =
       Throws (Error ''telegram unreachable'')"
proof -
  have d: "notifications_delivered (start xs)" for xs
    by (simp add: notifications_delivered_def start_def)
  note T = notification_failure_aborts_step
  have "notifications_delivered (snd (addToCart sampleProduct (start (inStock @ [Ok, Ok, Ok]))))"
    using T[of "start (inStock @ [Ok, Ok, Ok])" sampleProduct] d returning_steps(1) by blast
  moreover have "notifications_delivered (snd (checkout 1 sampleConfig True (start [])))"
    using T[of "start []" _ 1 sampleConfig True] d returning_steps(2) by blast
  moreover have "notifications_delivered
      (snd (submitGuestOrder sampleConfig (start (orderScript ''$699.99''))))"
    using T[of "start (orderScript ''$699.99'')" _ _ sampleConfig] d returning_steps(3) by blast
  moreover have "notifications_delivered (snd (shutDown (start [])))"
    using T[of "start []"] d returning_steps(4) by blast
  moreover have "fst (promiseAll (sendDiscordMessage ''Attempting checkout'')
             (sendTelegramMessage ''Attempting checkout'') (start [Fails ''discord unreachable''])) =
       Throws (Error ''discord unreachable'')"
    using T[of "start [Fails ''discord unreachable'']" _ _ _ _ "''Attempting checkout''"
              "''Attempting checkout''"]
    by (simp add: start_def answer_def is_Fails_def failure_def del: checkout.simps)
  moreover have "fst (promiseAll (sendDiscordMessage ''Attempting checkout'')
             (sendTelegramMessage ''Attempting checkout'') (start [Ok, Fails ''telegram unreachable''])) =
       Throws (Error ''telegram unreachable'')"
    using T[of "start [Ok, Fails ''telegram unreachable'']" _ _ _ _ "''Attempting checkout''"
              "''Attempting checkout''"]
    by (simp add: start_def answer_def advance_def is_Fails_def failure_def del: checkout.simps)
  ultimately show ?thesis by blast
qed

text \<open>
  Claim C4 as stated fails: \<open>addToCart\<close> returns when the in-stock notifications are
  delivered, and throws when the Discord one is rejected, all else being equal.
\<close>

theorem notification_failure_changes_outcome:
  "fst (addToCart sampleProduct (start (inStock @ [Ok, Ok, Ok]))) = Returns ()
   \<and> fst (addToCart sampleProduct (start (inStock @ [Ok, Ok, Fails ''discord unreachable'']))) =
       Throws (Error ''discord unreachable'')"
  using addToCart_inStock by simp

section \<open>Shipping selection within checkout\<close>









end
